theory Spec2Isabelle
  imports Complex_Main
begin

section \<open>Numbers, vectors and matrices\<close>

text \<open>
  The Physics module of \<^verbatim>\<open>src/js/armada/graphics.js\<close> computes with JavaScript
  numbers, with plain arrays for vectors and with \<^verbatim>\<open>Float32Array\<close>s of 16 entries for
  4x4 matrices. The embedding idealises the numbers to \<^typ>\<open>real\<close> (no rounding, no NaN,
  no infinities) and keeps arrays as lists, so that \<^verbatim>\<open>push\<close> and indexing read as in
  the code. An index beyond the end of a list is unspecified here, where JavaScript
  yields \<^verbatim>\<open>undefined\<close>; every vector below is used at the length its documentation
  gives.
\<close>

type_synonym vec = "real list"
type_synonym mat = "real list"

subsection \<open>The vector and matrix library\<close>

text \<open>
  The module depends on \<^verbatim>\<open>matrices.js\<close> (the objects \<^verbatim>\<open>Vec\<close> and \<^verbatim>\<open>Mat\<close>), which is
  not among the sources. Its standard operations are modelled from the specification
  (section 2: 3D vectors, 4x4 homogeneous transformation matrices and 3x3 sub-matrices
  with multiply, inverse and normalize). Matrices are stored row by row, vectors are
  rows multiplied from the left, and a translation sits in the entries 12, 13, 14, as
  \<^verbatim>\<open>Mat.translationVector3\<close> of a position matrix requires.
\<close>

definition length3 :: "vec \<Rightarrow> real" where
  \<comment> \<open>Modelled from the spec: \<^verbatim>\<open>Vec.length3\<close> of matrices.js, the Euclidean length.\<close>
  "length3 v = sqrt (v ! 0 * v ! 0 + v ! 1 * v ! 1 + v ! 2 * v ! 2)"

definition normal3 :: "vec \<Rightarrow> vec" where
  \<comment> \<open>Modelled from the spec: \<^verbatim>\<open>Vec.normal3\<close> of matrices.js, the vector divided by its
      length. For the zero vector the specification leaves the result undefined
      (section 7); the division by zero of HOL yields the zero vector there.\<close>
  "normal3 v = [v ! 0 / length3 v, v ! 1 / length3 v, v ! 2 / length3 v]"

definition scaled3 :: "vec \<Rightarrow> real \<Rightarrow> vec" where
  \<comment> \<open>Modelled from the spec: \<^verbatim>\<open>Vec.scaled3\<close> of matrices.js.\<close>
  "scaled3 v s = [v ! 0 * s, v ! 1 * s, v ! 2 * s]"

definition add3 :: "vec \<Rightarrow> vec \<Rightarrow> vec" where
  \<comment> \<open>Modelled from the spec: \<^verbatim>\<open>Vec.add3\<close> of matrices.js.\<close>
  "add3 v w = [v ! 0 + w ! 0, v ! 1 + w ! 1, v ! 2 + w ! 2]"

definition mulVec3Mat3 :: "vec \<Rightarrow> mat \<Rightarrow> vec" where
  \<comment> \<open>Modelled from the spec: \<^verbatim>\<open>Vec.mulVec3Mat3\<close> of matrices.js, a row vector times a
      3x3 matrix of 9 entries.\<close>
  "mulVec3Mat3 v m =
     [v ! 0 * m ! 0 + v ! 1 * m ! 3 + v ! 2 * m ! 6,
      v ! 0 * m ! 1 + v ! 1 * m ! 4 + v ! 2 * m ! 7,
      v ! 0 * m ! 2 + v ! 1 * m ! 5 + v ! 2 * m ! 8]"

definition mulVec4Mat4 :: "vec \<Rightarrow> mat \<Rightarrow> vec" where
  \<comment> \<open>Modelled from the spec: \<^verbatim>\<open>Vec.mulVec4Mat4\<close> of matrices.js, a row vector times a
      4x4 matrix. Only the first four entries of the vector are read.\<close>
  "mulVec4Mat4 v m =
     [v ! 0 * m ! 0 + v ! 1 * m ! 4 + v ! 2 * m ! 8 + v ! 3 * m ! 12,
      v ! 0 * m ! 1 + v ! 1 * m ! 5 + v ! 2 * m ! 9 + v ! 3 * m ! 13,
      v ! 0 * m ! 2 + v ! 1 * m ! 6 + v ! 2 * m ! 10 + v ! 3 * m ! 14,
      v ! 0 * m ! 3 + v ! 1 * m ! 7 + v ! 2 * m ! 11 + v ! 3 * m ! 15]"

definition identity4 :: mat where
  \<comment> \<open>Modelled from the spec: \<^verbatim>\<open>Mat.identity4\<close> of matrices.js.\<close>
  "identity4 = [1, 0, 0, 0,  0, 1, 0, 0,  0, 0, 1, 0,  0, 0, 0, 1]"

definition translation4v :: "vec \<Rightarrow> mat" where
  \<comment> \<open>Modelled from the spec: \<^verbatim>\<open>Mat.translation4v\<close> of matrices.js, the translation by
      a 3D vector.\<close>
  "translation4v v = [1, 0, 0, 0,  0, 1, 0, 0,  0, 0, 1, 0,  v ! 0, v ! 1, v ! 2, 1]"

definition translationVector3 :: "mat \<Rightarrow> vec" where
  \<comment> \<open>Modelled from the spec: \<^verbatim>\<open>Mat.translationVector3\<close> of matrices.js.\<close>
  "translationVector3 m = [m ! 12, m ! 13, m ! 14]"

definition matrix3from4 :: "mat \<Rightarrow> mat" where
  \<comment> \<open>Modelled from the spec: \<^verbatim>\<open>Mat.matrix3from4\<close> of matrices.js, the upper left 3x3
      sub-matrix.\<close>
  "matrix3from4 m = [m ! 0, m ! 1, m ! 2,  m ! 4, m ! 5, m ! 6,  m ! 8, m ! 9, m ! 10]"

definition mul4_entry :: "mat \<Rightarrow> mat \<Rightarrow> nat \<Rightarrow> nat \<Rightarrow> real" where
  "mul4_entry a b i j =
     a ! (4 * i) * b ! j + a ! (4 * i + 1) * b ! (4 + j) +
     a ! (4 * i + 2) * b ! (8 + j) + a ! (4 * i + 3) * b ! (12 + j)"

definition mul4 :: "mat \<Rightarrow> mat \<Rightarrow> mat" where
  \<comment> \<open>Modelled from the spec: \<^verbatim>\<open>Mat.mul4\<close> of matrices.js, the product of two 4x4
      matrices.\<close>
  "mul4 a b =
     [mul4_entry a b 0 0, mul4_entry a b 0 1, mul4_entry a b 0 2, mul4_entry a b 0 3,
      mul4_entry a b 1 0, mul4_entry a b 1 1, mul4_entry a b 1 2, mul4_entry a b 1 3,
      mul4_entry a b 2 0, mul4_entry a b 2 1, mul4_entry a b 2 2, mul4_entry a b 2 3,
      mul4_entry a b 3 0, mul4_entry a b 3 1, mul4_entry a b 3 2, mul4_entry a b 3 3]"

definition inverseOfTranslation4 :: "mat \<Rightarrow> mat" where
  \<comment> \<open>Modelled from the spec: \<^verbatim>\<open>Mat.inverseOfTranslation4\<close> of matrices.js.\<close>
  "inverseOfTranslation4 m =
     [1, 0, 0, 0,  0, 1, 0, 0,  0, 0, 1, 0,  - (m ! 12), - (m ! 13), - (m ! 14), 1]"

definition inverseOfRotation4 :: "mat \<Rightarrow> mat" where
  \<comment> \<open>Modelled from the spec: \<^verbatim>\<open>Mat.inverseOfRotation4\<close> of matrices.js, the transpose
      of the rotation.\<close>
  "inverseOfRotation4 m =
     [m ! 0, m ! 4, m ! 8, 0,  m ! 1, m ! 5, m ! 9, 0,  m ! 2, m ! 6, m ! 10, 0,
      0, 0, 0, 1]"

definition inverseOfScaling4 :: "mat \<Rightarrow> mat" where
  \<comment> \<open>Modelled from the spec: \<^verbatim>\<open>Mat.inverseOfScaling4\<close> of matrices.js.\<close>
  "inverseOfScaling4 m =
     [1 / m ! 0, 0, 0, 0,  0, 1 / m ! 5, 0, 0,  0, 0, 1 / m ! 10, 0,  0, 0, 0, 1]"

text \<open>
  Three further operations of \<^verbatim>\<open>matrices.js\<close> are used by the simulation step only, and
  the specification does not fix their values: the rotation about an axis by an angle,
  the straightening of a matrix below a threshold and the re-orthogonalisation. They
  are parameters of the model.
\<close>

record matlib =
  rotation4 :: "vec \<Rightarrow> real \<Rightarrow> mat"
  straightened :: "mat \<Rightarrow> real \<Rightarrow> mat"
  correctedOrthogonal4 :: "mat \<Rightarrow> mat"

section \<open>Force and Torque\<close>

record force =
  force_id :: string
  force_strength :: real
  force_direction :: vec
  force_duration :: real

definition Force :: "string \<Rightarrow> real \<Rightarrow> vec \<Rightarrow> real \<Rightarrow> force" where
  "Force ident strength direction duration =
     \<lparr>force_id = ident, force_strength = strength,
      force_direction = normal3 direction, force_duration = duration\<rparr>"

definition Force_getID :: "force \<Rightarrow> string" where
  "Force_getID f = force_id f"

definition Force_renew :: "force \<Rightarrow> real \<Rightarrow> vec \<Rightarrow> real \<Rightarrow> force" where
  "Force_renew f strength direction duration =
     f\<lparr>force_strength := strength, force_direction := normal3 direction,
       force_duration := duration\<rparr>"

text \<open>The method returns the exertion time; the force after the call is the second component.\<close>

definition Force_getExertionDuration :: "force \<Rightarrow> real \<Rightarrow> real \<times> force" where
  "Force_getExertionDuration f dt =
     (if force_duration f > 0.1
      then (min (force_duration f) dt, f\<lparr>force_duration := force_duration f - dt\<rparr>)
      else (0, f))"

definition Force_getAccelerationVector :: "force \<Rightarrow> real \<Rightarrow> vec" where
  "Force_getAccelerationVector f mass = scaled3 (force_direction f) (force_strength f / mass)"

record torque =
  torque_id :: string
  torque_strength :: real
  torque_axis :: vec
  torque_duration :: real

definition Torque :: "string \<Rightarrow> real \<Rightarrow> vec \<Rightarrow> real \<Rightarrow> torque" where
  "Torque ident strength axis duration =
     \<lparr>torque_id = ident, torque_strength = strength,
      torque_axis = normal3 axis, torque_duration = duration\<rparr>"

definition Torque_getID :: "torque \<Rightarrow> string" where
  "Torque_getID t = torque_id t"

definition Torque_renew :: "torque \<Rightarrow> real \<Rightarrow> vec \<Rightarrow> real \<Rightarrow> torque" where
  "Torque_renew t strength axis duration =
     t\<lparr>torque_strength := strength, torque_axis := axis, torque_duration := duration\<rparr>"

definition Torque_getExertionDuration :: "torque \<Rightarrow> real \<Rightarrow> real \<times> torque" where
  "Torque_getExertionDuration t dt =
     (if torque_duration t > 0.1
      then (min (torque_duration t) dt, t\<lparr>torque_duration := torque_duration t - dt\<rparr>)
      else (0, t))"

definition Torque_getAngularAccelerationMatrixOverTime ::
    "matlib \<Rightarrow> torque \<Rightarrow> real \<Rightarrow> real \<Rightarrow> mat" where
  "Torque_getAngularAccelerationMatrixOverTime L t mass time =
     rotation4 L (torque_axis t) (torque_strength t / mass * time)"

section \<open>Body\<close>

record body =
  body_positionMatrix :: mat
  body_orientationMatrix :: mat
  body_modelMatrixInverse :: "mat option"
  body_width :: real
  body_height :: real
  body_depth :: real

definition Body :: "mat \<Rightarrow> mat \<Rightarrow> vec \<Rightarrow> body" where
  "Body positionMatrix orientationMatrix dimensions =
     \<lparr>body_positionMatrix = positionMatrix, body_orientationMatrix = orientationMatrix,
      body_modelMatrixInverse = None,
      body_width = dimensions ! 0, body_height = dimensions ! 1,
      body_depth = dimensions ! 2\<rparr>"

definition Body_getPositionMatrix :: "body \<Rightarrow> mat" where
  "Body_getPositionMatrix b = body_positionMatrix b"

definition Body_getOrientationMatrix :: "body \<Rightarrow> mat" where
  "Body_getOrientationMatrix b = body_orientationMatrix b"

text \<open>
  The cache \<^verbatim>\<open>_modelMatrixInverse\<close> is \<^verbatim>\<open>null\<close> or a matrix (an object, hence truthy), so
  \<^verbatim>\<open>cache || value\<close> is a case distinction on an option. The getter returns the matrix
  and the body with its cache filled.
\<close>

definition Body_getModelMatrixInverse :: "body \<Rightarrow> mat \<times> body" where
  "Body_getModelMatrixInverse b =
     (let m = (case body_modelMatrixInverse b of
                 Some c \<Rightarrow> c
               | None \<Rightarrow> mul4 (inverseOfTranslation4 (body_positionMatrix b))
                              (inverseOfRotation4 (body_orientationMatrix b)))
      in (m, b\<lparr>body_modelMatrixInverse := Some m\<rparr>))"

definition Body_getHalfDimensions :: "body \<Rightarrow> vec" where
  "Body_getHalfDimensions b = [body_width b * 0.5, body_height b * 0.5, body_depth b * 0.5]"

definition Body_checkHit :: "body \<Rightarrow> vec \<Rightarrow> bool \<times> body" where
  "Body_checkHit b relativePositionVector =
     (let (m, b') = Body_getModelMatrixInverse b;
          r = mulVec4Mat4 relativePositionVector m
      in ((r ! 0 \<ge> - body_width b' * 0.5) \<and> (r ! 0 \<le> body_width b' * 0.5) \<and>
          (r ! 1 \<ge> - body_height b' * 0.5) \<and> (r ! 1 \<le> body_height b' * 0.5) \<and>
          (r ! 2 \<ge> - body_depth b' * 0.5) \<and> (r ! 2 \<le> body_depth b' * 0.5), b'))"

section \<open>PhysicalObject\<close>

text \<open>
  A Force or a Torque is an object of the JavaScript heap: \<^verbatim>\<open>addForce\<close> pushes a reference
  onto the array \<^verbatim>\<open>_forces\<close>, and \<^verbatim>\<open>renew\<close> and \<^verbatim>\<open>getExertionDuration\<close> change the instance
  in place, for every place of every array that refers to it. So the arrays are lists of
  references, and the record of an object carries the store of the instances: the Force
  and the Torque at each reference that has been allocated, and the next reference to
  allocate. The specification (section 3) lets no two objects share a Force or a Torque.
  A Body changes nothing but its cache, whose content its two matrices determine, and
  no matrix is changed in place by the module; bodies and matrices are kept as values.
\<close>

type_synonym ref = nat

record physicalObject =
  po_mass :: real
  po_positionMatrix :: mat
  po_orientationMatrix :: mat
  po_scalingMatrix :: mat
  po_rotationMatrixInverse :: "mat option"
  po_modelMatrixInverse :: "mat option"
  po_velocityMatrix :: mat
  po_angularVelocityMatrix :: mat
  po_forceRefs :: "ref list"
  po_torqueRefs :: "ref list"
  po_bodies :: "body list"
  po_bodySize :: real
  heap_forces :: "ref \<rightharpoonup> force"
  heap_torques :: "ref \<rightharpoonup> torque"
  heap_next :: ref

text \<open>
  The arrays as the program reads them: \<^verbatim>\<open>this._forces[i]\<close> is the instance at the
  \<open>i\<close>-th reference. Every reference of an array has been allocated (see \<open>heap_wf\<close>
  below), so the store is defined there.
\<close>

definition po_forces :: "physicalObject \<Rightarrow> force list" where
  "po_forces obj = map (\<lambda>r. the (heap_forces obj r)) (po_forceRefs obj)"

definition po_torques :: "physicalObject \<Rightarrow> torque list" where
  "po_torques obj = map (\<lambda>r. the (heap_torques obj r)) (po_torqueRefs obj)"

subsection \<open>The cached size of the structure\<close>

text \<open>One round of the loop of \<^verbatim>\<open>_calculateBodySize\<close>, for the body \<open>b\<close>.\<close>

definition calculateBodySize_step :: "mat \<Rightarrow> real \<Rightarrow> body \<Rightarrow> real" where
  "calculateBodySize_step orientationMatrix bodySize b =
     (let bodyPos = translationVector3 (Body_getPositionMatrix b);
          halfDim = mulVec3Mat3 (Body_getHalfDimensions b)
                      (matrix3from4 (mul4 orientationMatrix (Body_getOrientationMatrix b)));
          s1 = max bodySize (length3 (add3 bodyPos halfDim));
          s2 = max s1 (length3 (add3 bodyPos [halfDim ! 0, halfDim ! 1, - (halfDim ! 2)]));
          s3 = max s2 (length3 (add3 bodyPos [halfDim ! 0, - (halfDim ! 1), halfDim ! 2]));
          s4 = max s3 (length3 (add3 bodyPos [halfDim ! 0, - (halfDim ! 1), - (halfDim ! 2)]));
          s5 = max s4 (length3 (add3 bodyPos [- (halfDim ! 0), halfDim ! 1, halfDim ! 2]));
          s6 = max s5 (length3 (add3 bodyPos [- (halfDim ! 0), halfDim ! 1, - (halfDim ! 2)]));
          s7 = max s6 (length3 (add3 bodyPos [- (halfDim ! 0), - (halfDim ! 1), halfDim ! 2]));
          s8 = max s7 (length3 (add3 bodyPos [- (halfDim ! 0), - (halfDim ! 1), - (halfDim ! 2)]))
      in s8)"

definition calculateBodySize :: "physicalObject \<Rightarrow> physicalObject" where
  "calculateBodySize obj =
     obj\<lparr>po_bodySize :=
           foldl (calculateBodySize_step (po_orientationMatrix obj)) 0 (po_bodies obj)\<rparr>"

text \<open>
  The optional argument \<^verbatim>\<open>bodies\<close> is an option; an array, even an empty one, is truthy.
  The store of a new object is empty.
\<close>

definition PhysicalObject ::
    "real \<Rightarrow> mat \<Rightarrow> mat \<Rightarrow> mat \<Rightarrow> mat \<Rightarrow> body list option \<Rightarrow> physicalObject" where
  "PhysicalObject mass positionMatrix orientationMatrix scalingMatrix initialVelocityMatrix
       bodies =
     calculateBodySize
       \<lparr>po_mass = mass, po_positionMatrix = positionMatrix,
        po_orientationMatrix = orientationMatrix, po_scalingMatrix = scalingMatrix,
        po_rotationMatrixInverse = None, po_modelMatrixInverse = None,
        po_velocityMatrix = initialVelocityMatrix, po_angularVelocityMatrix = identity4,
        po_forceRefs = [], po_torqueRefs = [],
        po_bodies = (case bodies of Some bs \<Rightarrow> bs | None \<Rightarrow> []),
        po_bodySize = - 1,
        heap_forces = Map.empty, heap_torques = Map.empty, heap_next = 0\<rparr>"

subsection \<open>Getters and setters\<close>

text \<open>
  \<^verbatim>\<open>new Force(...)\<close> and \<^verbatim>\<open>new Torque(...)\<close> allocate an instance at the next reference and
  return the reference.
\<close>

definition new_Force ::
    "physicalObject \<Rightarrow> string \<Rightarrow> real \<Rightarrow> vec \<Rightarrow> real \<Rightarrow> ref \<times> physicalObject" where
  "new_Force obj ident strength direction duration =
     (heap_next obj,
      obj\<lparr>heap_forces := (heap_forces obj)(heap_next obj \<mapsto>
                             Force ident strength direction duration),
          heap_next := Suc (heap_next obj)\<rparr>)"

definition new_Torque ::
    "physicalObject \<Rightarrow> string \<Rightarrow> real \<Rightarrow> vec \<Rightarrow> real \<Rightarrow> ref \<times> physicalObject" where
  "new_Torque obj ident strength axis duration =
     (heap_next obj,
      obj\<lparr>heap_torques := (heap_torques obj)(heap_next obj \<mapsto>
                              Torque ident strength axis duration),
          heap_next := Suc (heap_next obj)\<rparr>)"

text \<open>\<^verbatim>\<open>addForce\<close> and \<^verbatim>\<open>addTorque\<close> push the reference they are given.\<close>

definition addForce :: "physicalObject \<Rightarrow> ref \<Rightarrow> physicalObject" where
  "addForce obj force = obj\<lparr>po_forceRefs := po_forceRefs obj @ [force]\<rparr>"

definition addTorque :: "physicalObject \<Rightarrow> ref \<Rightarrow> physicalObject" where
  "addTorque obj torque = obj\<lparr>po_torqueRefs := po_torqueRefs obj @ [torque]\<rparr>"

definition setPositionMatrix :: "physicalObject \<Rightarrow> mat \<Rightarrow> physicalObject" where
  "setPositionMatrix obj v = obj\<lparr>po_positionMatrix := v, po_modelMatrixInverse := None\<rparr>"

definition setOrientationMatrix :: "physicalObject \<Rightarrow> mat \<Rightarrow> physicalObject" where
  "setOrientationMatrix obj v =
     obj\<lparr>po_orientationMatrix := v, po_rotationMatrixInverse := None,
         po_modelMatrixInverse := None\<rparr>"

definition getRotationMatrixInverse :: "physicalObject \<Rightarrow> mat \<times> physicalObject" where
  "getRotationMatrixInverse obj =
     (let m = (case po_rotationMatrixInverse obj of
                 Some c \<Rightarrow> c
               | None \<Rightarrow> inverseOfRotation4 (po_orientationMatrix obj))
      in (m, obj\<lparr>po_rotationMatrixInverse := Some m\<rparr>))"

text \<open>
  The right operand of \<^verbatim>\<open>||\<close> is evaluated only when the cache is empty, so the cache of
  the rotation is filled only then.
\<close>

definition getModelMatrixInverse :: "physicalObject \<Rightarrow> mat \<times> physicalObject" where
  "getModelMatrixInverse obj =
     (case po_modelMatrixInverse obj of
        Some c \<Rightarrow> (c, obj\<lparr>po_modelMatrixInverse := Some c\<rparr>)
      | None \<Rightarrow>
          (let (r, obj') = getRotationMatrixInverse obj;
               m = mul4 (mul4 (inverseOfTranslation4 (po_positionMatrix obj')) r)
                        (inverseOfScaling4 (po_scalingMatrix obj'))
           in (m, obj'\<lparr>po_modelMatrixInverse := Some m\<rparr>)))"

subsection \<open>Adding and renewing forces and torques\<close>

text \<open>
  The scan of \<^verbatim>\<open>addOrRenewForce\<close> over the references of \<^verbatim>\<open>_forces\<close>: the store of the
  forces after the loop and the flag \<^verbatim>\<open>found\<close>. At the first reference whose instance
  has the identifier, the loop renews that instance in the store and leaves.
\<close>

fun addOrRenewForce_scan ::
    "(ref \<rightharpoonup> force) \<Rightarrow> ref list \<Rightarrow> string \<Rightarrow> real \<Rightarrow> vec \<Rightarrow> real \<Rightarrow>
     (ref \<rightharpoonup> force) \<times> bool" where
  "addOrRenewForce_scan h [] forceID strength direction duration = (h, False)"
| "addOrRenewForce_scan h (r # rs) forceID strength direction duration =
     (if Force_getID (the (h r)) = forceID
      then (h(r \<mapsto> Force_renew (the (h r)) strength direction duration), True)
      else addOrRenewForce_scan h rs forceID strength direction duration)"

definition addOrRenewForce ::
    "physicalObject \<Rightarrow> string \<Rightarrow> real \<Rightarrow> vec \<Rightarrow> real \<Rightarrow> physicalObject" where
  "addOrRenewForce obj forceID strength direction duration =
     (let (h, found) = addOrRenewForce_scan (heap_forces obj) (po_forceRefs obj)
                         forceID strength direction duration;
          obj' = obj\<lparr>heap_forces := h\<rparr>
      in if found = False
         then (let (force, obj'') = new_Force obj' forceID strength direction duration
               in addForce obj'' force)
         else obj')"

fun addOrRenewTorque_scan ::
    "(ref \<rightharpoonup> torque) \<Rightarrow> ref list \<Rightarrow> string \<Rightarrow> real \<Rightarrow> vec \<Rightarrow> real \<Rightarrow>
     (ref \<rightharpoonup> torque) \<times> bool" where
  "addOrRenewTorque_scan h [] torqueID strength axis duration = (h, False)"
| "addOrRenewTorque_scan h (r # rs) torqueID strength axis duration =
     (if Torque_getID (the (h r)) = torqueID
      then (h(r \<mapsto> Torque_renew (the (h r)) strength axis duration), True)
      else addOrRenewTorque_scan h rs torqueID strength axis duration)"

definition addOrRenewTorque ::
    "physicalObject \<Rightarrow> string \<Rightarrow> real \<Rightarrow> vec \<Rightarrow> real \<Rightarrow> physicalObject" where
  "addOrRenewTorque obj torqueID strength axis duration =
     (let (h, found) = addOrRenewTorque_scan (heap_torques obj) (po_torqueRefs obj)
                         torqueID strength axis duration;
          obj' = obj\<lparr>heap_torques := h\<rparr>
      in if found = False
         then (let (torque, obj'') = new_Torque obj' torqueID strength axis duration
               in addTorque obj'' torque)
         else obj')"

subsection \<open>Hit check\<close>

text \<open>
  The loop of \<^verbatim>\<open>checkHit\<close> over the bodies runs while \<^verbatim>\<open>result === false\<close>. It returns
  the result and the bodies (a tested body has its cache filled); the third component
  counts the calls of \<^verbatim>\<open>Body.prototype.checkHit\<close>, which the code does not store.
\<close>

fun checkHit_bodies :: "body list \<Rightarrow> vec \<Rightarrow> bool \<times> body list \<times> nat" where
  "checkHit_bodies [] relativePos = (False, [], 0)"
| "checkHit_bodies (b # bs) relativePos =
     (case Body_checkHit b relativePos of
        (True, b') \<Rightarrow> (True, b' # bs, 1)
      | (False, b') \<Rightarrow>
          (case checkHit_bodies bs relativePos of
             (result, bs', n) \<Rightarrow> (result, b' # bs', Suc n)))"

record hitCheck =
  hit_result :: bool
  hit_object :: physicalObject
  hit_positionVector :: vec
  hit_bodyChecks :: nat

text \<open>
  \<^verbatim>\<open>checkHit\<close> pushes 1 onto the array it is given, so the array after the call is part
  of the outcome, next to the object (whose caches the call fills).
\<close>

definition checkHit :: "physicalObject \<Rightarrow> vec \<Rightarrow> hitCheck" where
  "checkHit obj positionVector =
     (let positionVector' = positionVector @ [1];
          (inv, obj') = getModelMatrixInverse obj;
          relativePos = mulVec4Mat4 positionVector' inv
      in if \<bar>relativePos ! 0\<bar> < po_bodySize obj' \<and> \<bar>relativePos ! 1\<bar> < po_bodySize obj' \<and>
            \<bar>relativePos ! 2\<bar> < po_bodySize obj'
         then (case checkHit_bodies (po_bodies obj') relativePos of
                 (result, bs, n) \<Rightarrow>
                   \<lparr>hit_result = result, hit_object = obj'\<lparr>po_bodies := bs\<rparr>,
                    hit_positionVector = positionVector', hit_bodyChecks = n\<rparr>)
         else \<lparr>hit_result = False, hit_object = obj',
               hit_positionVector = positionVector', hit_bodyChecks = 0\<rparr>)"

subsection \<open>Simulation step\<close>

definition correctMatrices :: "matlib \<Rightarrow> physicalObject \<Rightarrow> physicalObject" where
  "correctMatrices L obj =
     (let obj' = setOrientationMatrix obj (correctedOrthogonal4 L (po_orientationMatrix obj))
      in obj'\<lparr>po_angularVelocityMatrix :=
                correctedOrthogonal4 L (po_angularVelocityMatrix obj')\<rparr>)"

text \<open>
  The body of the loop over the forces, for the index \<open>i\<close>; the state is the object and
  the local \<^verbatim>\<open>accelerationMatrix\<close>. \<^verbatim>\<open>getExertionDuration\<close> changes the instance that
  \<^verbatim>\<open>this._forces[i]\<close> refers to, in the store.
\<close>

definition simulate_force ::
    "real \<Rightarrow> physicalObject \<times> mat \<Rightarrow> nat \<Rightarrow> physicalObject \<times> mat" where
  "simulate_force dt s i =
     (let (obj, accelerationMatrix) = s;
          (e, f) = Force_getExertionDuration (the (heap_forces obj (po_forceRefs obj ! i))) dt;
          obj1 = obj\<lparr>heap_forces := (heap_forces obj)(po_forceRefs obj ! i \<mapsto> f)\<rparr>;
          t = e / 1000
      in if t > 0
         then (let a = Force_getAccelerationVector
                         (the (heap_forces obj1 (po_forceRefs obj1 ! i))) (po_mass obj1);
                   obj2 = setPositionMatrix obj1
                            (mul4 (po_positionMatrix obj1)
                               (translation4v (scaled3 a (1 / 2 * t * t))))
               in (obj2, mul4 accelerationMatrix (translation4v (scaled3 a t))))
         else (obj1, accelerationMatrix))"

text \<open>
  The loop \<^verbatim>\<open>for (i = 0; i + 2 < dt; i += 5)\<close>. The counter takes the values 0, 5, 10, ...
  only, so it is a natural number.
\<close>

function simulate_rotation :: "nat \<Rightarrow> real \<Rightarrow> physicalObject \<Rightarrow> physicalObject" where
  "simulate_rotation i dt obj =
     (if real i + 2 < dt
      then simulate_rotation (i + 5) dt
             (setOrientationMatrix obj
                (mul4 (po_orientationMatrix obj) (po_angularVelocityMatrix obj)))
      else obj)"
  by pat_completeness auto
termination
  by (relation "measure (\<lambda>(i, dt, obj). nat \<lceil>dt\<rceil> - i)") (auto, linarith)

declare simulate_rotation.simps [simp del]

text \<open>The body of the loop over the torques, with the local \<^verbatim>\<open>angularAccMatrix\<close>.\<close>

definition simulate_torque ::
    "matlib \<Rightarrow> real \<Rightarrow> physicalObject \<times> mat \<Rightarrow> nat \<Rightarrow> physicalObject \<times> mat" where
  "simulate_torque L dt s i =
     (let (obj, angularAccMatrix) = s;
          (e, tq) = Torque_getExertionDuration
                      (the (heap_torques obj (po_torqueRefs obj ! i))) dt;
          obj1 = obj\<lparr>heap_torques := (heap_torques obj)(po_torqueRefs obj ! i \<mapsto> tq)\<rparr>;
          t = e / 1000
      in if t > 0
         then (let obj2 = setOrientationMatrix obj1
                            (mul4 (po_orientationMatrix obj1)
                               (Torque_getAngularAccelerationMatrixOverTime L
                                  (the (heap_torques obj1 (po_torqueRefs obj1 ! i)))
                                  (po_mass obj1) (1 / 2 * t * t)))
               in (obj2, mul4 angularAccMatrix
                           (Torque_getAngularAccelerationMatrixOverTime L
                              (the (heap_torques obj2 (po_torqueRefs obj2 ! i)))
                              (po_mass obj2) (t / 200))))
         else (obj1, angularAccMatrix))"

text \<open>
  Neither loop changes the length of the list it runs over, so the loops over the
  forces and the torques are folds over the indices.
\<close>

definition simulate :: "matlib \<Rightarrow> physicalObject \<Rightarrow> real \<Rightarrow> physicalObject" where
  "simulate L obj dt =
     (if dt > 0
      then (let obj1 = setPositionMatrix obj
                         (mul4 (po_positionMatrix obj)
                            (translation4v
                               (scaled3 (translationVector3 (po_velocityMatrix obj)) (dt / 1000))));
                (obj2, accelerationMatrix) =
                  foldl (simulate_force dt) (obj1, identity4) [0..<length (po_forceRefs obj1)];
                obj3 = obj2\<lparr>po_velocityMatrix :=
                              mul4 (po_velocityMatrix obj2) accelerationMatrix\<rparr>;
                obj4 = simulate_rotation 0 dt obj3;
                (obj5, angularAccMatrix) =
                  foldl (simulate_torque L dt) (obj4, identity4) [0..<length (po_torqueRefs obj4)];
                obj6 = obj5\<lparr>po_angularVelocityMatrix :=
                              mul4 (po_angularVelocityMatrix obj5) angularAccMatrix\<rparr>;
                obj7 = obj6\<lparr>po_velocityMatrix :=
                              straightened L (po_velocityMatrix obj6) 0.0001\<rparr>;
                obj8 = obj7\<lparr>po_angularVelocityMatrix :=
                              straightened L (po_angularVelocityMatrix obj7) 0.00002\<rparr>
            in correctMatrices L obj8)
      else obj)"

subsection \<open>Sequences of calls\<close>

text \<open>
  The calls a client can make: on the object, to create a Force or a Torque, and on a
  Force it holds (\<^verbatim>\<open>renew\<close> and \<^verbatim>\<open>getExertionDuration\<close>, which change the instance); and
  the object after a sequence of them. The values the calls return are dropped; their
  effects on the object and the store are kept. A client can use only a reference to
  an instance that exists, as often as it likes; any other number is no call and leaves
  the object as it is. The module does not export Torque; the calls that create and add
  one are kept nevertheless.
\<close>

datatype call =
    SetPositionMatrix mat
  | SetOrientationMatrix mat
  | GetRotationMatrixInverse
  | GetModelMatrixInverse
  | NewForce string real vec real
  | NewTorque string real vec real
  | AddForce ref
  | AddTorque ref
  | RenewForce ref real vec real
  | ExertForce ref real
  | AddOrRenewForce string real vec real
  | AddOrRenewTorque string real vec real
  | CheckHit vec
  | Simulate real

fun perform :: "matlib \<Rightarrow> physicalObject \<Rightarrow> call \<Rightarrow> physicalObject" where
  "perform L obj (SetPositionMatrix v) = setPositionMatrix obj v"
| "perform L obj (SetOrientationMatrix v) = setOrientationMatrix obj v"
| "perform L obj GetRotationMatrixInverse = snd (getRotationMatrixInverse obj)"
| "perform L obj GetModelMatrixInverse = snd (getModelMatrixInverse obj)"
| "perform L obj (NewForce i s d t) = snd (new_Force obj i s d t)"
| "perform L obj (NewTorque i s a t) = snd (new_Torque obj i s a t)"
| "perform L obj (AddForce r) =
     (if r < heap_next obj \<and> heap_forces obj r \<noteq> None then addForce obj r else obj)"
| "perform L obj (AddTorque r) =
     (if r < heap_next obj \<and> heap_torques obj r \<noteq> None then addTorque obj r else obj)"
| "perform L obj (RenewForce r s d t) =
     (case heap_forces obj r of
        None \<Rightarrow> obj
      | Some f \<Rightarrow> obj\<lparr>heap_forces := (heap_forces obj)(r \<mapsto> Force_renew f s d t)\<rparr>)"
| "perform L obj (ExertForce r dt) =
     (case heap_forces obj r of
        None \<Rightarrow> obj
      | Some f \<Rightarrow>
          obj\<lparr>heap_forces := (heap_forces obj)(r \<mapsto> snd (Force_getExertionDuration f dt))\<rparr>)"
| "perform L obj (AddOrRenewForce i s d t) = addOrRenewForce obj i s d t"
| "perform L obj (AddOrRenewTorque i s a t) = addOrRenewTorque obj i s a t"
| "perform L obj (CheckHit p) = hit_object (checkHit obj p)"
| "perform L obj (Simulate dt) = simulate L obj dt"

definition performAll :: "matlib \<Rightarrow> physicalObject \<Rightarrow> call list \<Rightarrow> physicalObject" where
  "performAll L obj cs = foldl (perform L) obj cs"

subsection \<open>Auxiliary notions of the verification\<close>

text \<open>
  The caches of an object are valid when each is empty or holds the value its getter
  would compute from the current matrices.
\<close>

definition caches_valid :: "physicalObject \<Rightarrow> bool" where
  "caches_valid obj \<longleftrightarrow>
     po_rotationMatrixInverse obj \<in>
       {None, Some (inverseOfRotation4 (po_orientationMatrix obj))} \<and>
     po_modelMatrixInverse obj \<in>
       {None,
        Some (mul4 (mul4 (inverseOfTranslation4 (po_positionMatrix obj))
                      (inverseOfRotation4 (po_orientationMatrix obj)))
                (inverseOfScaling4 (po_scalingMatrix obj)))}"

text \<open>
  The store of an object is well formed when every reference of its arrays has been
  allocated: it is below the next reference, and the store holds an instance there.
\<close>

definition heap_wf :: "physicalObject \<Rightarrow> bool" where
  "heap_wf obj \<longleftrightarrow>
     (\<forall>r \<in> set (po_forceRefs obj). r < heap_next obj \<and> heap_forces obj r \<noteq> None) \<and>
     (\<forall>r \<in> set (po_torqueRefs obj). r < heap_next obj \<and> heap_torques obj r \<noteq> None)"

text \<open>The index of the first force of a list with a given identifier.\<close>

definition firstMatch :: "string \<Rightarrow> force list \<Rightarrow> nat" where
  "firstMatch forceID fs = length (takeWhile (\<lambda>f. Force_getID f \<noteq> forceID) fs)"

text \<open>
  An instance of the parameters, for the evaluation of examples only: straightening and
  correction leave a matrix as it is, which is what they do in exact arithmetic on the
  clean matrices of the examples, and no example has a torque. Every general theorem
  below holds for all instances.
\<close>

definition sampleLib :: matlib where
  "sampleLib =
     \<lparr>rotation4 = (\<lambda>axis angle. identity4), straightened = (\<lambda>m epsilon. m),
      correctedOrthogonal4 = (\<lambda>m. m)\<rparr>"

text \<open>
  The objects of the examples. The box object has one body of 6 by 4 by 12 at its
  origin. The tilted object has one body of 10 by 10 by 2, centred at (10, 0, 0) and
  turned about the z axis by the angle with cosine 3/5 and sine 4/5. The pushed object
  of mass 2 moves at 1 m/s along x under a force of 4 N along x that lasts 2 s. The
  nudged object of mass 1 is at rest under a force of 1 N along x with 0.1 ms left.
  The doubled object has one thrust, created once and added twice. The laden object
  has a drag and two thrusts, three instances.
\<close>

abbreviation boxObject :: physicalObject where
  "boxObject \<equiv>
     PhysicalObject 1 identity4 identity4 identity4 identity4
       (Some [Body identity4 identity4 [6, 4, 12]])"

abbreviation tiltedBody :: body where
  "tiltedBody \<equiv>
     Body (translation4v [10, 0, 0])
       [3 / 5, 4 / 5, 0, 0,  - (4 / 5), 3 / 5, 0, 0,  0, 0, 1, 0,  0, 0, 0, 1]
       [10, 10, 2]"

abbreviation tiltedObject :: physicalObject where
  "tiltedObject \<equiv>
     PhysicalObject 1 identity4 identity4 identity4 identity4 (Some [tiltedBody])"

abbreviation pushedObject :: physicalObject where
  "pushedObject \<equiv>
     addForce
       (snd (new_Force
               (PhysicalObject 2 identity4 identity4 identity4 (translation4v [1, 0, 0]) None)
               ''thrust'' 4 [1, 0, 0] 2000))
       0"

abbreviation nudgedObject :: physicalObject where
  "nudgedObject \<equiv>
     addForce
       (snd (new_Force (PhysicalObject 1 identity4 identity4 identity4 identity4 None)
               ''thrust'' 1 [1, 0, 0] (1 / 10)))
       0"

abbreviation doubledObject :: physicalObject where
  "doubledObject \<equiv>
     addForce
       (addForce
          (snd (new_Force (PhysicalObject 1 identity4 identity4 identity4 identity4 None)
                  ''thrust'' 2 [0, 1, 0] 20))
          0)
       0"

abbreviation ladenObject :: physicalObject where
  "ladenObject \<equiv>
     addForce
       (snd (new_Force
          (addForce
             (snd (new_Force
                (addForce
                   (snd (new_Force
                           (PhysicalObject 1 identity4 identity4 identity4 identity4 None)
                           ''drag'' 1 [1, 0, 0] 10))
                   0)
                ''thrust'' 2 [0, 1, 0] 20))
             1)
          ''thrust'' 3 [0, 0, 1] 30))
       2"

section \<open>Evaluating vectors and matrices\<close>

lemmas matrix_defs =
  mul4_def mul4_entry_def identity4_def translation4v_def translationVector3_def
  matrix3from4_def inverseOfTranslation4_def inverseOfRotation4_def inverseOfScaling4_def
  mulVec4Mat4_def mulVec3Mat3_def scaled3_def add3_def

lemma length3_list: "length3 [a, b, c] = sqrt (a * a + b * b + c * c)"
  by (simp add: length3_def)

lemma sum_of_quotients:
  fixes a b c l :: real
  shows "a / l * (a / l) + b / l * (b / l) + c / l * (c / l) = (a * a + b * b + c * c) / (l * l)"
  by (simp add: add_divide_distrib)

text \<open>Normalising a vector of non-zero length yields a vector of length 1.\<close>

lemma length3_normal3: "length3 v \<noteq> 0 \<Longrightarrow> length3 (normal3 v) = 1"
proof -
  assume nz: "length3 v \<noteq> 0"
  define q where "q = v ! 0 * v ! 0 + v ! 1 * v ! 1 + v ! 2 * v ! 2"
  define l where "l = length3 v"
  have l: "l = sqrt q" by (simp add: length3_def q_def l_def)
  have qpos: "0 \<le> q" by (simp add: q_def)
  have sq: "l * l = q" using qpos l by simp
  have "normal3 v = [v ! 0 / l, v ! 1 / l, v ! 2 / l]"
    by (simp add: normal3_def l_def)
  then have "length3 (normal3 v) =
          sqrt (v ! 0 / l * (v ! 0 / l) + v ! 1 / l * (v ! 1 / l) + v ! 2 / l * (v ! 2 / l))"
    by (simp only: length3_list)
  also have "\<dots> = sqrt (q / (l * l))"
    unfolding sum_of_quotients q_def ..
  also have "\<dots> = sqrt 1"
  proof -
    have "l \<noteq> 0" using nz by (simp add: l_def)
    then have "l * l / (l * l) = 1" by simp
    then show ?thesis by (simp only: sq)
  qed
  finally show ?thesis by simp
qed

section \<open>Exertion of forces and torques\<close>

text \<open>
  C1 (as amended). \<^verbatim>\<open>getExertionDuration(dt)\<close> of a Force, and of a Torque alike: when
  the stored remaining duration is at most 0.1 ms, the call returns 0 and leaves the
  force as it is, the stored duration included; when the duration is above 0.1 ms, the
  call returns the smaller of the duration and \<open>dt\<close> and decrements the stored duration
  by \<open>dt\<close>, changing nothing else.
\<close>

theorem getExertionDuration_policy:
  "(force_duration f \<le> 0.1 \<longrightarrow> Force_getExertionDuration f dt = (0, f)) \<and>
   (force_duration f > 0.1 \<longrightarrow>
      fst (Force_getExertionDuration f dt) = min (force_duration f) dt \<and>
      snd (Force_getExertionDuration f dt) = f\<lparr>force_duration := force_duration f - dt\<rparr>) \<and>
   (torque_duration t \<le> 0.1 \<longrightarrow> Torque_getExertionDuration t dt = (0, t)) \<and>
   (torque_duration t > 0.1 \<longrightarrow>
      fst (Torque_getExertionDuration t dt) = min (torque_duration t) dt \<and>
      snd (Torque_getExertionDuration t dt) = t\<lparr>torque_duration := torque_duration t - dt\<rparr>)"
  by (simp add: Force_getExertionDuration_def Torque_getExertionDuration_def)

text \<open>
  The force expiry of section 8 of the specification: a force and a torque of 50 ms,
  sampled with 100 ms, are exerted for 50 ms and are left with -50 ms; the next sample
  finds them expired, returns 0 and changes nothing.
\<close>

theorem getExertionDuration_policy_witness:
  "Force_getExertionDuration (Force ''thrust'' 2 [1, 0, 0] 50) 100 =
     (50, Force ''thrust'' 2 [1, 0, 0] (- 50)) \<and>
   Force_getExertionDuration (Force ''thrust'' 2 [1, 0, 0] (- 50)) 100 =
     (0, Force ''thrust'' 2 [1, 0, 0] (- 50)) \<and>
   Torque_getExertionDuration (Torque ''spin'' 2 [0, 0, 1] 50) 100 =
     (50, Torque ''spin'' 2 [0, 0, 1] (- 50)) \<and>
   Torque_getExertionDuration (Torque ''spin'' 2 [0, 0, 1] (- 50)) 100 =
     (0, Torque ''spin'' 2 [0, 0, 1] (- 50))"
  using getExertionDuration_policy [of "Force ''thrust'' 2 [1, 0, 0] 50" 100
          "Torque ''spin'' 2 [0, 0, 1] 50"]
        getExertionDuration_policy [of "Force ''thrust'' 2 [1, 0, 0] (- 50)" 100
          "Torque ''spin'' 2 [0, 0, 1] (- 50)"]
  by (simp add: Force_def Torque_def prod_eq_iff)

text \<open>
  C1 as stated fails. A force with exactly 0.1 ms left is not below the epsilon, yet a
  sample of 1 ms returns 0 instead of 0.1 and the stored duration stays 0.1 instead of
  becoming -0.9. A force with 0 ms left, sampled with 10 ms, keeps the duration 0
  instead of -10.
\<close>

theorem getExertionDuration_counterexample:
  "\<not> force_duration (Force ''thrust'' 1 [1, 0, 0] (1 / 10)) < 0.1 \<and>
   fst (Force_getExertionDuration (Force ''thrust'' 1 [1, 0, 0] (1 / 10)) 1) \<noteq>
     min (force_duration (Force ''thrust'' 1 [1, 0, 0] (1 / 10))) 1 \<and>
   force_duration (snd (Force_getExertionDuration (Force ''thrust'' 1 [1, 0, 0] (1 / 10)) 1)) \<noteq>
     force_duration (Force ''thrust'' 1 [1, 0, 0] (1 / 10)) - 1 \<and>
   force_duration (Force ''thrust'' 1 [1, 0, 0] 0) < 0.1 \<and>
   force_duration (snd (Force_getExertionDuration (Force ''thrust'' 1 [1, 0, 0] 0) 10)) \<noteq>
     force_duration (Force ''thrust'' 1 [1, 0, 0] 0) - 10"
  by (simp add: Force_getExertionDuration_def Force_def)

section \<open>The axis of a torque\<close>

text \<open>
  The constructors and \<^verbatim>\<open>Force.prototype.renew\<close> store a vector of length 1 whenever the
  vector they are given has a non-zero length.
\<close>

lemma normalized_on_construction:
  assumes "length3 v \<noteq> 0"
  shows "length3 (force_direction (Force i s v d)) = 1"
    and "length3 (force_direction (Force_renew f s v d)) = 1"
    and "length3 (torque_axis (Torque i s v d)) = 1"
  using assms by (simp_all add: Force_def Force_renew_def Torque_def length3_normal3)

text \<open>
  C2. \<^verbatim>\<open>Torque.prototype.renew\<close> stores the axis it is given without normalising it:
  renewing a torque with the axis (0, 0, 2) leaves the axis (0, 0, 2), of length 2. The
  documentation of the field says "Always normalized"; the constructor of a Torque and
  the renewal of a Force, given the same vector, store (0, 0, 1).
\<close>

theorem Torque_renew_axis_not_normalized:
  "torque_axis (Torque_renew (Torque ''spin'' 1 [0, 0, 1] 100) 1 [0, 0, 2] 100) = [0, 0, 2] \<and>
   length3 (torque_axis (Torque_renew (Torque ''spin'' 1 [0, 0, 1] 100) 1 [0, 0, 2] 100)) = 2 \<and>
   torque_axis (Torque ''spin'' 1 [0, 0, 2] 100) = [0, 0, 1] \<and>
   force_direction (Force_renew (Force ''thrust'' 1 [0, 0, 1] 100) 1 [0, 0, 2] 100) = [0, 0, 1]"
  by (simp add: Torque_renew_def Torque_def Force_renew_def length3_def normal3_def)

section \<open>Adding or renewing a force\<close>

text \<open>The scan when no force has the identifier: nothing changes and nothing is found.\<close>

lemma addOrRenewForce_scan_absent:
  "\<forall>r \<in> set rs. Force_getID (the (h r)) \<noteq> i \<Longrightarrow>
   addOrRenewForce_scan h rs i s d t = (h, False)"
  by (induction rs) auto

text \<open>
  The scan when some force has the identifier: the instance at the first reference with
  the identifier is renewed in the store.
\<close>

lemma addOrRenewForce_scan_present:
  "\<exists>r \<in> set rs. Force_getID (the (h r)) = i \<Longrightarrow>
   addOrRenewForce_scan h rs i s d t =
     (h(rs ! firstMatch i (map (\<lambda>r. the (h r)) rs) \<mapsto>
          Force_renew (the (h (rs ! firstMatch i (map (\<lambda>r. the (h r)) rs)))) s d t),
      True)"
proof (induction rs)
  case Nil
  then show ?case by simp
next
  case (Cons a rs)
  show ?case
  proof (cases "Force_getID (the (h a)) = i")
    case True
    then show ?thesis by (simp add: firstMatch_def fun_upd_def)
  next
    case False
    with Cons.prems have "\<exists>r \<in> set rs. Force_getID (the (h r)) = i" by simp
    from Cons.IH [OF this] False show ?thesis by (simp add: firstMatch_def)
  qed
qed

text \<open>
  The scan right after a force with the identifier has been created and pushed behind
  forces without it: the new instance is the one renewed.
\<close>

lemma addOrRenewForce_scan_appended:
  "\<forall>r \<in> set rs. r \<noteq> a \<and> Force_getID (the (h r)) \<noteq> i \<Longrightarrow>
   addOrRenewForce_scan (h(a \<mapsto> Force i s d t)) (rs @ [a]) i s' d' t' =
     (h(a \<mapsto> Force i s' d' t'), True)"
  by (induction rs) (auto simp: Force_def Force_getID_def Force_renew_def)

text \<open>The first match lies in the list, has the identifier, and nothing before it has.\<close>

lemma firstMatch_index:
  "\<exists>f \<in> set fs. Force_getID f = i \<Longrightarrow>
   firstMatch i fs < length fs \<and>
   Force_getID (fs ! firstMatch i fs) = i \<and>
   (\<forall>j < firstMatch i fs. Force_getID (fs ! j) \<noteq> i)"
proof (induction fs)
  case Nil
  then show ?case by simp
next
  case (Cons a fs)
  show ?case
  proof (cases "Force_getID a = i")
    case True
    then show ?thesis by (simp add: firstMatch_def)
  next
    case False
    with Cons.prems have "\<exists>f \<in> set fs. Force_getID f = i" by simp
    from Cons.IH [OF this] False show ?thesis
      by (auto simp: firstMatch_def nth_Cons split: nat.splits)
  qed
qed

text \<open>The call when some force has the identifier, as a change of the store.\<close>

lemma addOrRenewForce_present:
  assumes "\<exists>f \<in> set (po_forces obj). Force_getID f = forceID"
  shows "addOrRenewForce obj forceID s d t =
           obj\<lparr>heap_forces := (heap_forces obj)
                  (po_forceRefs obj ! firstMatch forceID (po_forces obj) \<mapsto>
                     Force_renew (po_forces obj ! firstMatch forceID (po_forces obj)) s d t)\<rparr>"
proof -
  from assms have e: "\<exists>r \<in> set (po_forceRefs obj). Force_getID (the (heap_forces obj r)) = forceID"
    by (auto simp: po_forces_def)
  from firstMatch_index [OF assms]
  have "firstMatch forceID (po_forces obj) < length (po_forceRefs obj)"
    by (simp add: po_forces_def)
  then have n: "po_forces obj ! firstMatch forceID (po_forces obj) =
      the (heap_forces obj (po_forceRefs obj ! firstMatch forceID (po_forces obj)))"
    by (simp add: po_forces_def)
  show ?thesis
    unfolding n
    by (simp add: addOrRenewForce_def addOrRenewForce_scan_present [OF e] po_forces_def)
qed

text \<open>The call when no force has the identifier, on a well-formed store.\<close>

lemma addOrRenewForce_absent:
  assumes "\<forall>f \<in> set (po_forces obj). Force_getID f \<noteq> forceID"
  shows "addOrRenewForce obj forceID s d t =
           obj\<lparr>heap_forces := (heap_forces obj)(heap_next obj \<mapsto> Force forceID s d t),
               heap_next := Suc (heap_next obj),
               po_forceRefs := po_forceRefs obj @ [heap_next obj]\<rparr>"
proof -
  from assms have "\<forall>r \<in> set (po_forceRefs obj). Force_getID (the (heap_forces obj r)) \<noteq> forceID"
    by (simp add: po_forces_def)
  then show ?thesis
    by (simp add: addOrRenewForce_def addOrRenewForce_scan_absent new_Force_def addForce_def)
qed

lemma po_forces_fresh:
  assumes "a \<notin> set (po_forceRefs obj)"
  shows "po_forces (obj\<lparr>heap_forces := (heap_forces obj)(a \<mapsto> f), heap_next := n,
                        po_forceRefs := po_forceRefs obj @ [a]\<rparr>) = po_forces obj @ [f]"
  using assms by (auto simp: po_forces_def)

text \<open>
  C7 (as amended). When some force in the array of the object has the identifier,
  \<^verbatim>\<open>addOrRenewForce\<close> renews the Force instance at the first such place, in the store,
  and changes nothing else of the object: the array of references and its length are
  as before; the place lies in the array, carries the identifier and has no force with
  the identifier before it; a place of the array shows the renewed force if it refers
  to the renewed instance, and the force it showed before otherwise, later forces with
  the same identifier included. If no instance sits at two places of the array, the
  array of the forces is therefore the old one with the one place renewed. When no
  force has the identifier (and every reference of the array has been allocated),
  exactly one new Force is created and its reference appended; a second call with the
  same identifier then renews that instance and appends nothing, so that the array is
  the old one followed by one Force with the latest strength, direction (normalised)
  and duration.
\<close>

theorem addOrRenewForce_first_match:
  "((\<exists>f \<in> set (po_forces obj). Force_getID f = forceID) \<longrightarrow>
      addOrRenewForce obj forceID s d t =
        obj\<lparr>heap_forces := (heap_forces obj)
               (po_forceRefs obj ! firstMatch forceID (po_forces obj) \<mapsto>
                  Force_renew (po_forces obj ! firstMatch forceID (po_forces obj)) s d t)\<rparr> \<and>
      (distinct (po_forceRefs obj) \<longrightarrow>
         po_forces (addOrRenewForce obj forceID s d t) =
           (po_forces obj)
             [firstMatch forceID (po_forces obj) :=
                Force_renew (po_forces obj ! firstMatch forceID (po_forces obj)) s d t]) \<and>
      po_forceRefs (addOrRenewForce obj forceID s d t) = po_forceRefs obj \<and>
      length (po_forces (addOrRenewForce obj forceID s d t)) = length (po_forces obj) \<and>
      firstMatch forceID (po_forces obj) < length (po_forces obj) \<and>
      Force_getID (po_forces obj ! firstMatch forceID (po_forces obj)) = forceID \<and>
      (\<forall>j < firstMatch forceID (po_forces obj). Force_getID (po_forces obj ! j) \<noteq> forceID) \<and>
      (\<forall>j < length (po_forces obj).
         po_forces (addOrRenewForce obj forceID s d t) ! j =
           (if po_forceRefs obj ! j = po_forceRefs obj ! firstMatch forceID (po_forces obj)
            then Force_renew (po_forces obj ! firstMatch forceID (po_forces obj)) s d t
            else po_forces obj ! j))) \<and>
   ((\<forall>f \<in> set (po_forces obj). Force_getID f \<noteq> forceID) \<and> heap_wf obj \<longrightarrow>
      po_forceRefs (addOrRenewForce obj forceID s d t) = po_forceRefs obj @ [heap_next obj] \<and>
      po_forces (addOrRenewForce obj forceID s d t) = po_forces obj @ [Force forceID s d t] \<and>
      po_forceRefs (addOrRenewForce (addOrRenewForce obj forceID s d t) forceID s' d' t') =
        po_forceRefs obj @ [heap_next obj] \<and>
      po_forces (addOrRenewForce (addOrRenewForce obj forceID s d t) forceID s' d' t') =
        po_forces obj @ [Force forceID s' d' t'])"
proof (intro conjI impI)
  assume present: "\<exists>f \<in> set (po_forces obj). Force_getID f = forceID"
  note renewed = addOrRenewForce_present [OF present, of s d t]
  note index = firstMatch_index [OF present]
  show "addOrRenewForce obj forceID s d t =
        obj\<lparr>heap_forces := (heap_forces obj)
               (po_forceRefs obj ! firstMatch forceID (po_forces obj) \<mapsto>
                  Force_renew (po_forces obj ! firstMatch forceID (po_forces obj)) s d t)\<rparr>"
    by (rule renewed)
  show "po_forceRefs (addOrRenewForce obj forceID s d t) = po_forceRefs obj"
    unfolding renewed by simp
  show "length (po_forces (addOrRenewForce obj forceID s d t)) = length (po_forces obj)"
    unfolding renewed by (simp add: po_forces_def)
  from index show "firstMatch forceID (po_forces obj) < length (po_forces obj)"
    and "Force_getID (po_forces obj ! firstMatch forceID (po_forces obj)) = forceID"
    and "\<forall>j < firstMatch forceID (po_forces obj). Force_getID (po_forces obj ! j) \<noteq> forceID"
    by simp_all
  show places: "\<forall>j < length (po_forces obj).
         po_forces (addOrRenewForce obj forceID s d t) ! j =
           (if po_forceRefs obj ! j = po_forceRefs obj ! firstMatch forceID (po_forces obj)
            then Force_renew (po_forces obj ! firstMatch forceID (po_forces obj)) s d t
            else po_forces obj ! j)"
    unfolding renewed by (simp add: po_forces_def)
  show "po_forces (addOrRenewForce obj forceID s d t) =
           (po_forces obj)
             [firstMatch forceID (po_forces obj) :=
                Force_renew (po_forces obj ! firstMatch forceID (po_forces obj)) s d t]"
    if d: "distinct (po_forceRefs obj)"
  proof (rule nth_equalityI)
    show "length (po_forces (addOrRenewForce obj forceID s d t)) =
          length ((po_forces obj)
             [firstMatch forceID (po_forces obj) :=
                Force_renew (po_forces obj ! firstMatch forceID (po_forces obj)) s d t])"
      unfolding renewed by (simp add: po_forces_def)
  next
    fix j
    assume "j < length (po_forces (addOrRenewForce obj forceID s d t))"
    then have j: "j < length (po_forceRefs obj)"
      unfolding renewed by (simp add: po_forces_def)
    from index have k: "firstMatch forceID (po_forces obj) < length (po_forceRefs obj)"
      by (simp add: po_forces_def)
    from d j k have "po_forceRefs obj ! j = po_forceRefs obj ! firstMatch forceID (po_forces obj)
        \<longleftrightarrow> j = firstMatch forceID (po_forces obj)"
      by (simp add: nth_eq_iff_index_eq)
    with places j k
    show "po_forces (addOrRenewForce obj forceID s d t) ! j =
          (po_forces obj)
             [firstMatch forceID (po_forces obj) :=
                Force_renew (po_forces obj ! firstMatch forceID (po_forces obj)) s d t] ! j"
      by (simp add: po_forces_def nth_list_update)
  qed
next
  assume a: "(\<forall>f \<in> set (po_forces obj). Force_getID f \<noteq> forceID) \<and> heap_wf obj"
  then have absent: "\<forall>f \<in> set (po_forces obj). Force_getID f \<noteq> forceID"
    and fresh: "heap_next obj \<notin> set (po_forceRefs obj)"
    by (auto simp: heap_wf_def)
  note first = addOrRenewForce_absent [OF absent, of s d t]
  show "po_forceRefs (addOrRenewForce obj forceID s d t) = po_forceRefs obj @ [heap_next obj]"
    unfolding first by simp
  show "po_forces (addOrRenewForce obj forceID s d t) = po_forces obj @ [Force forceID s d t]"
    unfolding first by (rule po_forces_fresh [OF fresh])
  from absent fresh
  have others: "\<forall>r \<in> set (po_forceRefs obj).
      r \<noteq> heap_next obj \<and> Force_getID (the (heap_forces obj r)) \<noteq> forceID"
    by (auto simp: po_forces_def)
  have second: "addOrRenewForce (addOrRenewForce obj forceID s d t) forceID s' d' t' =
      obj\<lparr>heap_forces := (heap_forces obj)(heap_next obj \<mapsto> Force forceID s' d' t'),
          heap_next := Suc (heap_next obj),
          po_forceRefs := po_forceRefs obj @ [heap_next obj]\<rparr>"
    unfolding first
    by (simp add: addOrRenewForce_def addOrRenewForce_scan_appended [OF others])
  show "po_forceRefs (addOrRenewForce (addOrRenewForce obj forceID s d t) forceID s' d' t') =
        po_forceRefs obj @ [heap_next obj]"
    unfolding second by simp
  show "po_forces (addOrRenewForce (addOrRenewForce obj forceID s d t) forceID s' d' t') =
        po_forces obj @ [Force forceID s' d' t']"
    unfolding second by (rule po_forces_fresh [OF fresh])
qed

text \<open>
  On the laden object only the first thrust is renewed; on an object without forces,
  two calls leave one thrust with the values of the second call.
\<close>

theorem addOrRenewForce_first_match_witness:
  "po_forces (addOrRenewForce ladenObject ''thrust'' 5 [0, 0, 2] 40) =
     [Force ''drag'' 1 [1, 0, 0] 10, Force ''thrust'' 5 [0, 0, 2] 40,
      Force ''thrust'' 3 [0, 0, 1] 30] \<and>
   po_forces
     (addOrRenewForce
        (addOrRenewForce (PhysicalObject 1 identity4 identity4 identity4 identity4 None)
           ''thrust'' 2 [0, 1, 0] 20)
        ''thrust'' 5 [0, 0, 2] 40) = [Force ''thrust'' 5 [0, 0, 2] 40]"
proof
  have v: "po_forces ladenObject =
             [Force ''drag'' 1 [1, 0, 0] 10, Force ''thrust'' 2 [0, 1, 0] 20,
              Force ''thrust'' 3 [0, 0, 1] 30]"
    by (simp add: po_forces_def addForce_def new_Force_def PhysicalObject_def
          calculateBodySize_def)
  have present: "\<exists>f \<in> set (po_forces ladenObject). Force_getID f = ''thrust''"
    unfolding v by (simp add: Force_def Force_getID_def)
  have apart: "distinct (po_forceRefs ladenObject)"
    by (simp add: addForce_def new_Force_def PhysicalObject_def calculateBodySize_def)
  have k: "firstMatch ''thrust''
             [Force ''drag'' 1 [1, 0, 0] 10, Force ''thrust'' 2 [0, 1, 0] 20,
              Force ''thrust'' 3 [0, 0, 1] 30] = 1"
    by (simp add: firstMatch_def Force_def Force_getID_def)
  show "po_forces (addOrRenewForce ladenObject ''thrust'' 5 [0, 0, 2] 40) =
     [Force ''drag'' 1 [1, 0, 0] 10, Force ''thrust'' 5 [0, 0, 2] 40,
      Force ''thrust'' 3 [0, 0, 1] 30]"
    unfolding addOrRenewForce_first_match
        [THEN conjunct1, THEN mp, OF present, THEN conjunct2, THEN conjunct1, THEN mp, OF apart]
    unfolding v k
    by (simp add: Force_def Force_renew_def)
  have none: "po_forces (PhysicalObject 1 identity4 identity4 identity4 identity4 None) = []"
    by (simp add: po_forces_def PhysicalObject_def calculateBodySize_def)
  have absent: "(\<forall>f \<in> set (po_forces
           (PhysicalObject 1 identity4 identity4 identity4 identity4 None)).
             Force_getID f \<noteq> ''thrust'') \<and>
           heap_wf (PhysicalObject 1 identity4 identity4 identity4 identity4 None)"
    by (simp add: po_forces_def heap_wf_def PhysicalObject_def calculateBodySize_def)
  show "po_forces
     (addOrRenewForce
        (addOrRenewForce (PhysicalObject 1 identity4 identity4 identity4 identity4 None)
           ''thrust'' 2 [0, 1, 0] 20)
        ''thrust'' 5 [0, 0, 2] 40) = [Force ''thrust'' 5 [0, 0, 2] 40]"
    unfolding addOrRenewForce_first_match
        [THEN conjunct2, THEN mp, OF absent, THEN conjunct2, THEN conjunct2, THEN conjunct2]
    unfolding none by simp
qed

text \<open>
  C7 as stated fails. The doubled object has created one thrust and added it twice,
  so both places of its array refer to the one instance. \<^verbatim>\<open>addOrRenewForce\<close> finds the
  identifier at place 0 and renews the instance; place 1, another entry of the list,
  shows the renewed force as well.
\<close>

theorem addOrRenewForce_shared_counterexample:
  "po_forces doubledObject =
     [Force ''thrust'' 2 [0, 1, 0] 20, Force ''thrust'' 2 [0, 1, 0] 20] \<and>
   firstMatch ''thrust'' (po_forces doubledObject) = 0 \<and>
   po_forces (addOrRenewForce doubledObject ''thrust'' 5 [0, 0, 2] 40) =
     [Force ''thrust'' 5 [0, 0, 2] 40, Force ''thrust'' 5 [0, 0, 2] 40] \<and>
   po_forces (addOrRenewForce doubledObject ''thrust'' 5 [0, 0, 2] 40) ! 1 \<noteq>
     po_forces doubledObject ! 1"
proof -
  have v: "po_forces doubledObject =
     [Force ''thrust'' 2 [0, 1, 0] 20, Force ''thrust'' 2 [0, 1, 0] 20]"
    by (simp add: po_forces_def addForce_def new_Force_def PhysicalObject_def
          calculateBodySize_def)
  have k: "firstMatch ''thrust''
             [Force ''thrust'' 2 [0, 1, 0] 20, Force ''thrust'' 2 [0, 1, 0] 20] = 0"
    by (simp add: firstMatch_def Force_def Force_getID_def)
  have present: "\<exists>f \<in> set (po_forces doubledObject). Force_getID f = ''thrust''"
    unfolding v by (simp add: Force_def Force_getID_def)
  have w: "po_forces (addOrRenewForce doubledObject ''thrust'' 5 [0, 0, 2] 40) =
     [Force ''thrust'' 5 [0, 0, 2] 40, Force ''thrust'' 5 [0, 0, 2] 40]"
    unfolding addOrRenewForce_present [OF present] v k
    by (simp add: po_forces_def addForce_def new_Force_def PhysicalObject_def
          calculateBodySize_def Force_def Force_renew_def)
  show ?thesis
    unfolding w unfolding v k by (simp add: Force_def)
qed

text \<open>
  \<^verbatim>\<open>addOrRenewTorque\<close> scans in the same way; the torque it renews keeps the axis as
  given, since \<^verbatim>\<open>Torque.prototype.renew\<close> does not normalise.
\<close>

lemma addOrRenewTorque_scan_absent:
  "\<forall>r \<in> set rs. Torque_getID (the (h r)) \<noteq> i \<Longrightarrow>
   addOrRenewTorque_scan h rs i s a t = (h, False)"
  by (induction rs) auto

lemma addOrRenewTorque_appends:
  assumes "\<forall>q \<in> set (po_torques obj). Torque_getID q \<noteq> i" and "heap_wf obj"
  shows "po_torques (addOrRenewTorque obj i s a t) = po_torques obj @ [Torque i s a t]"
proof -
  from assms(1) have "\<forall>r \<in> set (po_torqueRefs obj). Torque_getID (the (heap_torques obj r)) \<noteq> i"
    by (simp add: po_torques_def)
  moreover from assms(2) have "heap_next obj \<notin> set (po_torqueRefs obj)"
    by (auto simp: heap_wf_def)
  ultimately show ?thesis
    by (auto simp: addOrRenewTorque_def addOrRenewTorque_scan_absent new_Torque_def
          addTorque_def po_torques_def)
qed

section \<open>Simulation with a non-positive time\<close>

text \<open>
  C9. For every object and every \<open>dt \<le> 0\<close>, \<^verbatim>\<open>simulate(dt)\<close> returns the object as it
  was: position, orientation, scaling, velocity, angular velocity, the caches and the
  lists of forces and torques with their remaining durations. The model has no error
  branch, as the code has no \<^verbatim>\<open>throw\<close>.
\<close>

theorem simulate_nonpositive_noop: "dt \<le> 0 \<Longrightarrow> simulate L obj dt = obj"
  by (simp add: simulate_def)

theorem simulate_nonpositive_noop_witness:
  "(- 5 :: real) \<le> 0 \<and> simulate sampleLib pushedObject (- 5) = pushedObject"
  using simulate_nonpositive_noop [of "- 5" sampleLib pushedObject]
  by simp

section \<open>The argument of the hit check\<close>

text \<open>
  C10. \<^verbatim>\<open>checkHit\<close> changes the array it is given: after the call the array is the old
  one with 1 appended, so an array of three coordinates has four entries, and a second
  call on the same array (on any object) appends one more.
\<close>

theorem checkHit_extends_argument:
  "hit_positionVector (checkHit obj p) = p @ [1] \<and>
   length (hit_positionVector (checkHit obj [x, y, z])) = 4 \<and>
   hit_positionVector (checkHit obj' (hit_positionVector (checkHit obj p))) = p @ [1, 1]"
  by (simp add: checkHit_def Let_def split: prod.splits)

section \<open>The simulation step\<close>

subsection \<open>The loop of the angular drift\<close>

text \<open>
  The loop \<^verbatim>\<open>for (i = 0; i + 2 < dt; i += 5)\<close>, entered with the counter \<open>i\<close>, makes as
  many rounds as the ceiling of \<open>(dt - 2 - i) / 5\<close>, and none when that is negative.
\<close>

lemma simulate_rotation_rounds:
  "simulate_rotation i dt obj =
     ((\<lambda>x. setOrientationMatrix x
              (mul4 (po_orientationMatrix x) (po_angularVelocityMatrix x))) ^^
        nat \<lceil>(dt - 2 - real i) / 5\<rceil>) obj"
proof (induction i dt obj rule: simulate_rotation.induct)
  case (1 i dt obj)
  show ?case
  proof (cases "real i + 2 < dt")
    case True
    have "\<lceil>(dt - 2 - real i) / 5\<rceil> = \<lceil>(dt - 2 - real (i + 5)) / 5\<rceil> + 1"
    proof -
      have "(dt - 2 - real i) / 5 = (dt - 2 - real (i + 5)) / 5 + 1"
        by (simp add: field_simps)
      then show ?thesis by (simp only: ceiling_add_one)
    qed
    moreover have "0 \<le> \<lceil>(dt - 2 - real (i + 5)) / 5\<rceil>"
    proof -
      have "- 1 < (dt - 2 - real (i + 5)) / 5" using True by simp
      then show ?thesis by linarith
    qed
    ultimately have n:
      "nat \<lceil>(dt - 2 - real i) / 5\<rceil> = Suc (nat \<lceil>(dt - 2 - real (i + 5)) / 5\<rceil>)"
      by linarith
    show ?thesis
      using True "1.IH" [OF True]
      by (subst simulate_rotation.simps) (simp only: n funpow_Suc_right o_apply if_True)
  next
    case False
    then have "nat \<lceil>(dt - 2 - real i) / 5\<rceil> = 0" by simp
    with False show ?thesis by (subst simulate_rotation.simps) simp
  qed
qed

text \<open>
  The rounds multiply the orientation by the angular velocity matrix, which they leave
  as it is, like the position, the velocity, the arrays of the forces and the torques,
  the store and the mass.
\<close>

lemma rotation_rounds_fields:
  "po_orientationMatrix
     (((\<lambda>x. setOrientationMatrix x
               (mul4 (po_orientationMatrix x) (po_angularVelocityMatrix x))) ^^ n) obj) =
     ((\<lambda>m. mul4 m (po_angularVelocityMatrix obj)) ^^ n) (po_orientationMatrix obj) \<and>
   po_angularVelocityMatrix
     (((\<lambda>x. setOrientationMatrix x
               (mul4 (po_orientationMatrix x) (po_angularVelocityMatrix x))) ^^ n) obj) =
     po_angularVelocityMatrix obj \<and>
   po_positionMatrix
     (((\<lambda>x. setOrientationMatrix x
               (mul4 (po_orientationMatrix x) (po_angularVelocityMatrix x))) ^^ n) obj) =
     po_positionMatrix obj \<and>
   po_velocityMatrix
     (((\<lambda>x. setOrientationMatrix x
               (mul4 (po_orientationMatrix x) (po_angularVelocityMatrix x))) ^^ n) obj) =
     po_velocityMatrix obj \<and>
   po_forceRefs
     (((\<lambda>x. setOrientationMatrix x
               (mul4 (po_orientationMatrix x) (po_angularVelocityMatrix x))) ^^ n) obj) =
     po_forceRefs obj \<and>
   po_torqueRefs
     (((\<lambda>x. setOrientationMatrix x
               (mul4 (po_orientationMatrix x) (po_angularVelocityMatrix x))) ^^ n) obj) =
     po_torqueRefs obj \<and>
   heap_forces
     (((\<lambda>x. setOrientationMatrix x
               (mul4 (po_orientationMatrix x) (po_angularVelocityMatrix x))) ^^ n) obj) =
     heap_forces obj \<and>
   heap_torques
     (((\<lambda>x. setOrientationMatrix x
               (mul4 (po_orientationMatrix x) (po_angularVelocityMatrix x))) ^^ n) obj) =
     heap_torques obj \<and>
   heap_next
     (((\<lambda>x. setOrientationMatrix x
               (mul4 (po_orientationMatrix x) (po_angularVelocityMatrix x))) ^^ n) obj) =
     heap_next obj \<and>
   po_mass
     (((\<lambda>x. setOrientationMatrix x
               (mul4 (po_orientationMatrix x) (po_angularVelocityMatrix x))) ^^ n) obj) =
     po_mass obj"
  by (induction n) (simp_all add: setOrientationMatrix_def)

lemma simulate_rotation_fields:
  "po_orientationMatrix (simulate_rotation i dt obj) =
     ((\<lambda>m. mul4 m (po_angularVelocityMatrix obj)) ^^ nat \<lceil>(dt - 2 - real i) / 5\<rceil>)
       (po_orientationMatrix obj)"
  "po_angularVelocityMatrix (simulate_rotation i dt obj) = po_angularVelocityMatrix obj"
  "po_positionMatrix (simulate_rotation i dt obj) = po_positionMatrix obj"
  "po_velocityMatrix (simulate_rotation i dt obj) = po_velocityMatrix obj"
  "po_forceRefs (simulate_rotation i dt obj) = po_forceRefs obj"
  "po_torqueRefs (simulate_rotation i dt obj) = po_torqueRefs obj"
  "heap_forces (simulate_rotation i dt obj) = heap_forces obj"
  "heap_torques (simulate_rotation i dt obj) = heap_torques obj"
  "heap_next (simulate_rotation i dt obj) = heap_next obj"
  "po_mass (simulate_rotation i dt obj) = po_mass obj"
  by (simp_all only: simulate_rotation_rounds rotation_rounds_fields)

subsection \<open>The loop over the torques\<close>

text \<open>
  The loop over the torques changes neither position nor velocity, nor the array of the
  forces, nor the forces in the store.
\<close>

lemma simulate_torque_frame:
  "po_positionMatrix (fst (simulate_torque L dt s i)) = po_positionMatrix (fst s) \<and>
   po_velocityMatrix (fst (simulate_torque L dt s i)) = po_velocityMatrix (fst s) \<and>
   po_forceRefs (fst (simulate_torque L dt s i)) = po_forceRefs (fst s) \<and>
   heap_forces (fst (simulate_torque L dt s i)) = heap_forces (fst s)"
  by (simp add: simulate_torque_def Let_def case_prod_beta setOrientationMatrix_def)

lemma simulate_torques_frame:
  "po_positionMatrix (fst (foldl (simulate_torque L dt) s js)) = po_positionMatrix (fst s) \<and>
   po_velocityMatrix (fst (foldl (simulate_torque L dt) s js)) = po_velocityMatrix (fst s) \<and>
   po_forceRefs (fst (foldl (simulate_torque L dt) s js)) = po_forceRefs (fst s) \<and>
   heap_forces (fst (foldl (simulate_torque L dt) s js)) = heap_forces (fst s)"
  by (induction js arbitrary: s) (simp_all add: simulate_torque_frame)

subsection \<open>Drift without forces and torques\<close>

text \<open>The step of an object without forces and torques, for any positive time.\<close>

lemma simulate_free:
  assumes "po_forces obj = []" and "po_torques obj = []" and "dt > 0"
  shows "simulate L obj dt =
     correctMatrices L
       ((simulate_rotation 0 dt
          (setPositionMatrix obj
             (mul4 (po_positionMatrix obj)
                (translation4v (scaled3 (translationVector3 (po_velocityMatrix obj)) (dt / 1000))))
           \<lparr>po_velocityMatrix := mul4 (po_velocityMatrix obj) identity4\<rparr>))
        \<lparr>po_velocityMatrix := straightened L (mul4 (po_velocityMatrix obj) identity4) 0.0001,
         po_angularVelocityMatrix :=
            straightened L (mul4 (po_angularVelocityMatrix obj) identity4) 0.00002\<rparr>)"
  using assms
  by (simp add: po_forces_def po_torques_def simulate_def Let_def setPositionMatrix_def
        simulate_rotation_fields)

lemma mul4_identity4: "mul4 identity4 identity4 = identity4"
  by (simp add: matrix_defs)

lemma funpow_fixed: "f x = x \<Longrightarrow> (f ^^ n) x = x"
  by (induction n) simp_all

text \<open>
  C6. For an object without forces and without torques, \<^verbatim>\<open>simulate(1000)\<close> sets the
  position to the old position times the translation by the velocity vector scaled by
  1 (second); the loop of the angular drift makes exactly 200 rounds, each of which
  multiplies the orientation by the angular velocity matrix; and the orientation after
  the step is the re-orthogonalisation (step 5 of section 4.4) of the old orientation
  multiplied 200 times by the angular velocity matrix.
\<close>

theorem simulate_zero_force_drift:
  assumes "po_forces obj = []" and "po_torques obj = []"
  shows "po_positionMatrix (simulate L obj 1000) =
           mul4 (po_positionMatrix obj)
             (translation4v (scaled3 (translationVector3 (po_velocityMatrix obj)) 1)) \<and>
         simulate_rotation 0 1000 obj =
           ((\<lambda>x. setOrientationMatrix x
                    (mul4 (po_orientationMatrix x) (po_angularVelocityMatrix x))) ^^ 200) obj \<and>
         po_orientationMatrix (simulate L obj 1000) =
           correctedOrthogonal4 L
             (((\<lambda>m. mul4 m (po_angularVelocityMatrix obj)) ^^ 200) (po_orientationMatrix obj))"
proof (intro conjI)
  have n: "nat \<lceil>(1000 - 2 - real 0) / 5\<rceil> = 200" by simp
  have d: "(1000::real) / 1000 = 1" by simp
  have p: "(0::real) < 1000" by simp
  note s = simulate_free [OF assms p, of L]
  show "simulate_rotation 0 1000 obj =
           ((\<lambda>x. setOrientationMatrix x
                    (mul4 (po_orientationMatrix x) (po_angularVelocityMatrix x))) ^^ 200) obj"
    by (simp only: simulate_rotation_rounds n)
  show "po_positionMatrix (simulate L obj 1000) =
           mul4 (po_positionMatrix obj)
             (translation4v (scaled3 (translationVector3 (po_velocityMatrix obj)) 1))"
    unfolding s d
    by (simp add: correctMatrices_def setOrientationMatrix_def
          setPositionMatrix_def simulate_rotation_fields)
  show "po_orientationMatrix (simulate L obj 1000) =
           correctedOrthogonal4 L
             (((\<lambda>m. mul4 m (po_angularVelocityMatrix obj)) ^^ 200) (po_orientationMatrix obj))"
    unfolding s d
    by (simp add: correctMatrices_def setOrientationMatrix_def
          setPositionMatrix_def simulate_rotation_fields del: funpow.simps)
qed

text \<open>
  An object at (5, 5, 5) that moves at (1, 2, 3) m/s and does not spin is at (6, 7, 8)
  after one second, with its orientation unchanged.
\<close>

theorem simulate_zero_force_drift_witness:
  "po_positionMatrix
     (simulate sampleLib
        (PhysicalObject 1 (translation4v [5, 5, 5]) identity4 identity4
           (translation4v [1, 2, 3]) None) 1000) = translation4v [6, 7, 8] \<and>
   po_orientationMatrix
     (simulate sampleLib
        (PhysicalObject 1 (translation4v [5, 5, 5]) identity4 identity4
           (translation4v [1, 2, 3]) None) 1000) = identity4"
proof -
  have f: "po_forces (PhysicalObject 1 (translation4v [5, 5, 5]) identity4 identity4
             (translation4v [1, 2, 3]) None) = []"
    and t: "po_torques (PhysicalObject 1 (translation4v [5, 5, 5]) identity4 identity4
             (translation4v [1, 2, 3]) None) = []"
    by (simp_all add: po_forces_def po_torques_def PhysicalObject_def calculateBodySize_def)
  have a: "po_angularVelocityMatrix (PhysicalObject 1 (translation4v [5, 5, 5]) identity4
             identity4 (translation4v [1, 2, 3]) None) = identity4"
    and r: "po_orientationMatrix (PhysicalObject 1 (translation4v [5, 5, 5]) identity4
             identity4 (translation4v [1, 2, 3]) None) = identity4"
    and p: "po_positionMatrix (PhysicalObject 1 (translation4v [5, 5, 5]) identity4
             identity4 (translation4v [1, 2, 3]) None) = translation4v [5, 5, 5]"
    and v: "po_velocityMatrix (PhysicalObject 1 (translation4v [5, 5, 5]) identity4
             identity4 (translation4v [1, 2, 3]) None) = translation4v [1, 2, 3]"
    by (simp_all add: PhysicalObject_def calculateBodySize_def)
  have i: "((\<lambda>m. mul4 m identity4) ^^ 200) identity4 = identity4"
    by (rule funpow_fixed) (rule mul4_identity4)
  have m: "mul4 (translation4v [5, 5, 5])
             (translation4v (scaled3 (translationVector3 (translation4v [1, 2, 3])) 1)) =
           translation4v [6, 7, 8]"
    by (simp add: matrix_defs)
  show ?thesis
    using simulate_zero_force_drift [OF f t, of sampleLib]
    unfolding a r p v i m
    by (simp add: sampleLib_def)
qed

subsection \<open>One force\<close>

text \<open>
  C5 (as amended). Let an object have exactly one force, let \<open>dt > 0\<close>, and let the
  remaining duration of the force be at least \<open>dt\<close> and above 0.1 ms. With the
  acceleration \<open>a\<close> of \<^verbatim>\<open>getAccelerationVector(mass)\<close> (direction times strength over
  mass) and \<open>t = dt / 1000\<close>, \<^verbatim>\<open>simulate(dt)\<close> sets the position to the old position times
  the translation by the old velocity vector scaled by \<open>t\<close>, times the translation by
  \<open>a\<close> scaled by \<open>t * t / 2\<close>; it sets the velocity to the straightening (threshold
  0.0001, step 5 of section 4.4) of the old velocity times the accumulated acceleration
  matrix, which is the identity times the translation by \<open>a\<close> scaled by \<open>t\<close>; and it
  leaves the force with its duration decremented by \<open>dt\<close>.
\<close>

theorem simulate_single_force:
  assumes "po_forces obj = [f]" and "dt > 0" and "force_duration f \<ge> dt"
    and "force_duration f > 0.1"
  shows "po_positionMatrix (simulate L obj dt) =
           mul4 (mul4 (po_positionMatrix obj)
                   (translation4v
                      (scaled3 (translationVector3 (po_velocityMatrix obj)) (dt / 1000))))
             (translation4v
                (scaled3 (Force_getAccelerationVector f (po_mass obj))
                   (1 / 2 * (dt / 1000) * (dt / 1000)))) \<and>
         po_velocityMatrix (simulate L obj dt) =
           straightened L
             (mul4 (po_velocityMatrix obj)
                (mul4 identity4
                   (translation4v
                      (scaled3 (Force_getAccelerationVector f (po_mass obj)) (dt / 1000)))))
             0.0001 \<and>
         po_forces (simulate L obj dt) = [f\<lparr>force_duration := force_duration f - dt\<rparr>]"
proof -
  from assms(1) obtain r where r: "po_forceRefs obj = [r]" and f: "the (heap_forces obj r) = f"
    by (cases "po_forceRefs obj") (auto simp: po_forces_def)
  show ?thesis
    using assms(2-4) r f
    by (simp add: po_forces_def simulate_def Let_def correctMatrices_def
          setOrientationMatrix_def setPositionMatrix_def simulate_rotation_fields
          simulate_force_def Force_getExertionDuration_def Force_getAccelerationVector_def
          case_prod_beta simulate_torques_frame)
qed

lemma normal3_unit_x: "normal3 [1, 0, 0] = [1, 0, 0]"
  by (simp add: normal3_def length3_def)

text \<open>
  The pushed object (mass 2, 1 m/s, 4 N for 2 s) is accelerated by 2 m/s per second: after one
  second it has moved by 1 + 1 metres and moves at 3 m/s, and the force has 1 s left.
\<close>

theorem simulate_single_force_witness:
  "po_positionMatrix (simulate sampleLib pushedObject 1000) = translation4v [2, 0, 0] \<and>
   po_velocityMatrix (simulate sampleLib pushedObject 1000) = translation4v [3, 0, 0] \<and>
   po_forces (simulate sampleLib pushedObject 1000) = [Force ''thrust'' 4 [1, 0, 0] 1000]"
proof -
  have f: "po_forces pushedObject = [Force ''thrust'' 4 [1, 0, 0] 2000]"
    by (simp add: po_forces_def addForce_def new_Force_def PhysicalObject_def
          calculateBodySize_def)
  have d: "force_duration (Force ''thrust'' 4 [1, 0, 0] 2000) = 2000"
    by (simp add: Force_def)
  have g: "(0::real) < 1000" "(1000::real) \<le> 2000" "(0.1::real) < 2000" by simp_all
  show ?thesis
    using simulate_single_force [OF f, of 1000 sampleLib] g
    unfolding d
    by (simp add: addForce_def new_Force_def PhysicalObject_def calculateBodySize_def
          Force_def Force_getAccelerationVector_def normal3_unit_x sampleLib_def matrix_defs)
qed

text \<open>
  C5 as stated fails. The nudged object has exactly one force, whose remaining duration
  of 0.1 ms is at least \<open>dt = 0.1\<close> ms, and \<open>dt > 0\<close>; the force counts as expired, so
  the position after \<^verbatim>\<open>simulate(0.1)\<close> lacks the displacement by \<open>a * t * t / 2\<close>.
\<close>

theorem simulate_single_force_counterexample:
  "po_forces nudgedObject = [Force ''thrust'' 1 [1, 0, 0] (1 / 10)] \<and>
   (0 :: real) < 1 / 10 \<and>
   force_duration (Force ''thrust'' 1 [1, 0, 0] (1 / 10)) \<ge> 1 / 10 \<and>
   po_positionMatrix (simulate sampleLib nudgedObject (1 / 10)) \<noteq>
     mul4 (mul4 (po_positionMatrix nudgedObject)
             (translation4v
                (scaled3 (translationVector3 (po_velocityMatrix nudgedObject))
                   (1 / 10 / 1000))))
       (translation4v
          (scaled3 (Force_getAccelerationVector (Force ''thrust'' 1 [1, 0, 0] (1 / 10))
                      (po_mass nudgedObject))
             (1 / 2 * (1 / 10 / 1000) * (1 / 10 / 1000))))"
proof -
  define obj where "obj = nudgedObject"
  have f: "po_forces obj = [Force ''thrust'' 1 [1, 0, 0] (1 / 10)]"
    and q: "po_forceRefs obj = [0]"
    and h: "the (heap_forces obj 0) = Force ''thrust'' 1 [1, 0, 0] (1 / 10)"
    and p: "po_positionMatrix obj = identity4"
    and v: "po_velocityMatrix obj = identity4"
    and m: "po_mass obj = 1"
    by (simp_all add: obj_def po_forces_def addForce_def new_Force_def PhysicalObject_def
          calculateBodySize_def)
  have d: "force_duration (Force ''thrust'' 1 [1, 0, 0] (1 / 10)) = 1 / 10"
    by (simp add: Force_def)
  have e: "Force_getExertionDuration (Force ''thrust'' 1 [1, 0, 0] (1 / 10)) (1 / 10) =
             (0, Force ''thrust'' 1 [1, 0, 0] (1 / 10))"
    by (simp add: Force_getExertionDuration_def d)
  have s: "po_positionMatrix (simulate sampleLib obj (1 / 10)) =
             mul4 identity4 (translation4v (scaled3 (translationVector3 identity4) (1 / 10 / 1000)))"
    by (simp add: simulate_def Let_def case_prod_beta simulate_torques_frame
        simulate_rotation_fields correctMatrices_def setOrientationMatrix_def
        setPositionMatrix_def simulate_force_def e q h p v)
  have a: "Force_getAccelerationVector (Force ''thrust'' 1 [1, 0, 0] (1 / 10)) 1 = [1, 0, 0]"
    by (simp add: Force_getAccelerationVector_def Force_def normal3_unit_x scaled3_def)
  have l: "mul4 identity4 (translation4v (scaled3 (translationVector3 identity4) (1 / 10 / 1000))) =
           identity4"
    by (simp add: matrix_defs)
  have r: "mul4 identity4
             (translation4v (scaled3 [1, 0, 0] (1 / 2 * (1 / 10 / 1000) * (1 / 10 / 1000)))) =
           translation4v [1 / 200000000, 0, 0]"
    by (simp add: matrix_defs)
  have n: "identity4 \<noteq> translation4v [1 / 200000000, 0, 0]"
    by (simp add: matrix_defs)
  show ?thesis
    unfolding obj_def [symmetric] f p v m d s a l r
    using n by simp
qed

section \<open>The cached inverses\<close>

text \<open>A new object has empty caches.\<close>

lemma caches_valid_PhysicalObject: "caches_valid (PhysicalObject m p r s v bs)"
  by (simp add: caches_valid_def PhysicalObject_def calculateBodySize_def)

text \<open>With valid caches, each getter returns the current value and keeps the caches valid.\<close>

lemma caches_valid_getRotationMatrixInverse:
  "caches_valid obj \<Longrightarrow>
   fst (getRotationMatrixInverse obj) = inverseOfRotation4 (po_orientationMatrix obj) \<and>
   caches_valid (snd (getRotationMatrixInverse obj))"
  by (auto simp: caches_valid_def getRotationMatrixInverse_def Let_def split: option.splits)

lemma getRotationMatrixInverse_frame:
  "po_positionMatrix (snd (getRotationMatrixInverse obj)) = po_positionMatrix obj \<and>
   po_orientationMatrix (snd (getRotationMatrixInverse obj)) = po_orientationMatrix obj \<and>
   po_scalingMatrix (snd (getRotationMatrixInverse obj)) = po_scalingMatrix obj \<and>
   po_modelMatrixInverse (snd (getRotationMatrixInverse obj)) = po_modelMatrixInverse obj"
  by (simp add: getRotationMatrixInverse_def Let_def)

lemma caches_valid_getModelMatrixInverse:
  assumes "caches_valid obj"
  shows "fst (getModelMatrixInverse obj) =
           mul4 (mul4 (inverseOfTranslation4 (po_positionMatrix obj))
                   (inverseOfRotation4 (po_orientationMatrix obj)))
             (inverseOfScaling4 (po_scalingMatrix obj)) \<and>
         caches_valid (snd (getModelMatrixInverse obj))"
proof (cases "po_modelMatrixInverse obj")
  case None
  with assms show ?thesis
    using caches_valid_getRotationMatrixInverse [OF assms]
    by (auto simp: getModelMatrixInverse_def case_prod_beta Let_def getRotationMatrixInverse_frame
          caches_valid_def split: option.splits)
next
  case (Some c)
  with assms show ?thesis
    by (auto simp: getModelMatrixInverse_def caches_valid_def split: option.splits)
qed

text \<open>
  A simulation step with a positive time ends in \<^verbatim>\<open>_correctMatrices\<close>, which sets the
  orientation through its setter and so empties both caches.
\<close>

lemma caches_valid_simulate: "caches_valid obj \<Longrightarrow> caches_valid (simulate L obj dt)"
  by (simp add: simulate_def Let_def case_prod_beta correctMatrices_def setOrientationMatrix_def
        caches_valid_def)

lemma caches_valid_bodies: "caches_valid (obj\<lparr>po_bodies := bs\<rparr>) = caches_valid obj"
  by (simp add: caches_valid_def)

lemma caches_valid_checkHit: "caches_valid obj \<Longrightarrow> caches_valid (hit_object (checkHit obj p))"
  using caches_valid_getModelMatrixInverse [of obj]
  by (simp add: checkHit_def Let_def case_prod_beta caches_valid_bodies)

lemma caches_valid_addOrRenew:
  "caches_valid obj \<Longrightarrow> caches_valid (addOrRenewForce obj i s d t)"
  "caches_valid obj \<Longrightarrow> caches_valid (addOrRenewTorque obj i s d t)"
  by (simp_all add: addOrRenewForce_def addOrRenewTorque_def addForce_def addTorque_def
        new_Force_def new_Torque_def caches_valid_def case_prod_beta Let_def)

lemma caches_valid_perform:
  assumes "caches_valid obj"
  shows "caches_valid (perform L obj c)"
proof (cases c)
  case (SetPositionMatrix v)
  with assms show ?thesis by (simp add: caches_valid_def setPositionMatrix_def)
next
  case (SetOrientationMatrix v)
  then show ?thesis by (simp add: caches_valid_def setOrientationMatrix_def)
next
  case GetRotationMatrixInverse
  with assms show ?thesis by (simp add: caches_valid_getRotationMatrixInverse)
next
  case GetModelMatrixInverse
  with assms show ?thesis by (simp add: caches_valid_getModelMatrixInverse)
next
  case (NewForce i s d t)
  with assms show ?thesis by (simp add: caches_valid_def new_Force_def)
next
  case (NewTorque i s a t)
  with assms show ?thesis by (simp add: caches_valid_def new_Torque_def)
next
  case (AddForce r)
  with assms show ?thesis by (simp add: caches_valid_def addForce_def)
next
  case (AddTorque r)
  with assms show ?thesis by (simp add: caches_valid_def addTorque_def)
next
  case (RenewForce r s d t)
  with assms show ?thesis by (simp add: caches_valid_def split: option.splits)
next
  case (ExertForce r dt)
  with assms show ?thesis by (simp add: caches_valid_def split: option.splits)
next
  case (AddOrRenewForce i s d t)
  with assms show ?thesis by (simp add: caches_valid_addOrRenew)
next
  case (AddOrRenewTorque i s d t)
  with assms show ?thesis by (simp add: caches_valid_addOrRenew)
next
  case (CheckHit p)
  with assms show ?thesis by (simp add: caches_valid_checkHit)
next
  case (Simulate dt)
  with assms show ?thesis by (simp add: caches_valid_simulate)
qed

lemma caches_valid_performAll: "caches_valid obj \<Longrightarrow> caches_valid (performAll L obj cs)"
  unfolding performAll_def
  by (induction cs arbitrary: obj) (simp_all add: caches_valid_perform)

text \<open>
  The product that \<^verbatim>\<open>getModelMatrixInverse\<close> computes is the inverse of the model matrix:
  for a scaling with non-zero factors, a rotation with orthonormal rows and a
  translation, the model matrix scaling times rotation times translation, multiplied by
  inverse translation times inverse rotation times inverse scaling, is the identity.
\<close>

lemma model_inverse:
  fixes sx sy sz tx ty tz a b c d e f g h k :: real
  assumes s: "sx \<noteq> 0" "sy \<noteq> 0" "sz \<noteq> 0"
    and r1: "a * a + b * b + c * c = 1" and r2: "d * d + e * e + f * f = 1"
    and r3: "g * g + h * h + k * k = 1"
    and r12: "a * d + b * e + c * f = 0" and r13: "a * g + b * h + c * k = 0"
    and r23: "d * g + e * h + f * k = 0"
  shows "mul4 (mul4 (mul4 [sx, 0, 0, 0,  0, sy, 0, 0,  0, 0, sz, 0,  0, 0, 0, 1]
                       [a, b, c, 0,  d, e, f, 0,  g, h, k, 0,  0, 0, 0, 1])
                 (translation4v [tx, ty, tz]))
           (mul4 (mul4 (inverseOfTranslation4 (translation4v [tx, ty, tz]))
                    (inverseOfRotation4 [a, b, c, 0,  d, e, f, 0,  g, h, k, 0,  0, 0, 0, 1]))
              (inverseOfScaling4 [sx, 0, 0, 0,  0, sy, 0, 0,  0, 0, sz, 0,  0, 0, 0, 1])) =
         identity4"
proof -
  have q: "\<And>x y p1 p2 p3 q1 q2 q3 :: real.
     x * p1 * (q1 / y) + x * p2 * (q2 / y) + x * p3 * (q3 / y) =
     x * (p1 * q1 + p2 * q2 + p3 * q3) / y"
    by (simp add: algebra_simps add_divide_distrib)
  have r21: "d * a + e * b + f * c = 0" using r12 by (simp add: mult.commute)
  have r31: "g * a + h * b + k * c = 0" using r13 by (simp add: mult.commute)
  have r32: "g * d + h * e + k * f = 0" using r23 by (simp add: mult.commute)
  have q2: "\<And>x y p1 p2 p3 q1 q2 q3 :: real.
     x * p1 * q1 / y + x * p2 * q2 / y + x * p3 * q3 / y =
     x * (p1 * q1 + p2 * q2 + p3 * q3) / y"
    by (simp add: algebra_simps add_divide_distrib)
  have q3: "\<And>y p1 p2 p3 :: real. p1 / y + p2 / y + p3 / y + (- p1 - p2 - p3) / y = 0"
    by (simp add: algebra_simps add_divide_distrib diff_divide_distrib)
  show ?thesis
    using s
    by (simp add: matrix_defs q r1 r2 r3)
       (simp only: q2 q3 r12 r13 r23 r21 r31 r32, simp)
qed

text \<open>
  C8. Take an object made by the constructor and any sequence of calls on it: the two
  setters in any order, interleaved at will with the two getters (which fill the
  caches), with creations, additions and renewals of forces and torques, with calls on
  the forces themselves, with hit checks and with simulation steps. On the object after these calls, \<^verbatim>\<open>getModelMatrixInverse()\<close> returns
  inverse translation times inverse rotation times inverse scaling of the current
  position, orientation and scaling matrices, and \<^verbatim>\<open>getRotationMatrixInverse()\<close> returns
  the inverse rotation of the current orientation matrix. Matrices are values here: a
  client that overwrites the entries of an array after handing it to a setter is not
  among the calls considered.
\<close>

theorem cached_inverses_current:
  "fst (getModelMatrixInverse (performAll L (PhysicalObject m p r s v bs) cs)) =
     mul4 (mul4 (inverseOfTranslation4
                   (po_positionMatrix (performAll L (PhysicalObject m p r s v bs) cs)))
             (inverseOfRotation4
                (po_orientationMatrix (performAll L (PhysicalObject m p r s v bs) cs))))
       (inverseOfScaling4 (po_scalingMatrix (performAll L (PhysicalObject m p r s v bs) cs))) \<and>
   fst (getRotationMatrixInverse (performAll L (PhysicalObject m p r s v bs) cs)) =
     inverseOfRotation4 (po_orientationMatrix (performAll L (PhysicalObject m p r s v bs) cs))"
  using caches_valid_performAll [OF caches_valid_PhysicalObject, of L m p r s v bs cs]
  by (simp add: caches_valid_getModelMatrixInverse caches_valid_getRotationMatrixInverse)

text \<open>
  The cache invalidation of section 8 of the specification: the inverse of the model
  matrix is read (and cached) at position (1, 2, 3) with the identity as orientation;
  then the orientation is set to a quarter turn about z and the position to (4, 5, 6).
  The getters return the inverses for the new matrices.
\<close>

theorem cached_inverses_current_witness:
  "fst (getModelMatrixInverse
          (performAll sampleLib
             (PhysicalObject 1 (translation4v [1, 2, 3]) identity4 identity4 identity4 None)
             [GetModelMatrixInverse,
              SetOrientationMatrix [0, 1, 0, 0,  - 1, 0, 0, 0,  0, 0, 1, 0,  0, 0, 0, 1],
              SetPositionMatrix (translation4v [4, 5, 6])])) =
     [0, - 1, 0, 0,  1, 0, 0, 0,  0, 0, 1, 0,  - 5, 4, - 6, 1] \<and>
   fst (getRotationMatrixInverse
          (performAll sampleLib
             (PhysicalObject 1 (translation4v [1, 2, 3]) identity4 identity4 identity4 None)
             [GetModelMatrixInverse,
              SetOrientationMatrix [0, 1, 0, 0,  - 1, 0, 0, 0,  0, 0, 1, 0,  0, 0, 0, 1],
              SetPositionMatrix (translation4v [4, 5, 6])])) =
     [0, - 1, 0, 0,  1, 0, 0, 0,  0, 0, 1, 0,  0, 0, 0, 1]"
proof -
  have o: "po_orientationMatrix
          (performAll sampleLib
             (PhysicalObject 1 (translation4v [1, 2, 3]) identity4 identity4 identity4 None)
             [GetModelMatrixInverse,
              SetOrientationMatrix [0, 1, 0, 0,  - 1, 0, 0, 0,  0, 0, 1, 0,  0, 0, 0, 1],
              SetPositionMatrix (translation4v [4, 5, 6])]) =
           [0, 1, 0, 0,  - 1, 0, 0, 0,  0, 0, 1, 0,  0, 0, 0, 1]"
    and p: "po_positionMatrix
          (performAll sampleLib
             (PhysicalObject 1 (translation4v [1, 2, 3]) identity4 identity4 identity4 None)
             [GetModelMatrixInverse,
              SetOrientationMatrix [0, 1, 0, 0,  - 1, 0, 0, 0,  0, 0, 1, 0,  0, 0, 0, 1],
              SetPositionMatrix (translation4v [4, 5, 6])]) = translation4v [4, 5, 6]"
    and s: "po_scalingMatrix
          (performAll sampleLib
             (PhysicalObject 1 (translation4v [1, 2, 3]) identity4 identity4 identity4 None)
             [GetModelMatrixInverse,
              SetOrientationMatrix [0, 1, 0, 0,  - 1, 0, 0, 0,  0, 0, 1, 0,  0, 0, 0, 1],
              SetPositionMatrix (translation4v [4, 5, 6])]) = identity4"
    by (simp_all add: performAll_def setPositionMatrix_def setOrientationMatrix_def
          getModelMatrixInverse_def getRotationMatrixInverse_def Let_def
          PhysicalObject_def calculateBodySize_def)
  show ?thesis
    using cached_inverses_current
        [of sampleLib 1 "translation4v [1, 2, 3]" identity4 identity4 identity4 None
        "[GetModelMatrixInverse,
              SetOrientationMatrix [0, 1, 0, 0,  - 1, 0, 0, 0,  0, 0, 1, 0,  0, 0, 0, 1],
              SetPositionMatrix (translation4v [4, 5, 6])]"]
    unfolding o p s
    by (simp add: matrix_defs)
qed

section \<open>The store of the forces and the torques\<close>

text \<open>
  Every object that a client can build has a well-formed store: the references of its
  arrays have been allocated, so the store is defined wherever the program reads it,
  and the next reference is in no array.
\<close>

lemma heap_wf_PhysicalObject: "heap_wf (PhysicalObject m p r s v bs)"
  by (simp add: heap_wf_def PhysicalObject_def calculateBodySize_def)

lemma simulate_force_store:
  "po_forceRefs (fst (simulate_force dt s i)) = po_forceRefs (fst s) \<and>
   po_torqueRefs (fst (simulate_force dt s i)) = po_torqueRefs (fst s) \<and>
   heap_next (fst (simulate_force dt s i)) = heap_next (fst s) \<and>
   heap_torques (fst (simulate_force dt s i)) = heap_torques (fst s) \<and>
   dom (heap_forces (fst s)) \<subseteq> dom (heap_forces (fst (simulate_force dt s i)))"
  by (auto simp: simulate_force_def Let_def case_prod_beta setPositionMatrix_def)

lemma simulate_forces_store:
  "po_forceRefs (fst (foldl (simulate_force dt) s js)) = po_forceRefs (fst s) \<and>
   po_torqueRefs (fst (foldl (simulate_force dt) s js)) = po_torqueRefs (fst s) \<and>
   heap_next (fst (foldl (simulate_force dt) s js)) = heap_next (fst s) \<and>
   heap_torques (fst (foldl (simulate_force dt) s js)) = heap_torques (fst s) \<and>
   dom (heap_forces (fst s)) \<subseteq> dom (heap_forces (fst (foldl (simulate_force dt) s js)))"
proof (induction js arbitrary: s)
  case Nil
  then show ?case by simp
next
  case (Cons j js)
  from Cons.IH [of "simulate_force dt s j"] simulate_force_store [of dt s j]
  show ?case by (simp del: dom_eq_empty_conv) blast
qed

lemma simulate_torque_store:
  "po_torqueRefs (fst (simulate_torque L dt s i)) = po_torqueRefs (fst s) \<and>
   heap_next (fst (simulate_torque L dt s i)) = heap_next (fst s) \<and>
   dom (heap_torques (fst s)) \<subseteq> dom (heap_torques (fst (simulate_torque L dt s i)))"
  by (auto simp: simulate_torque_def Let_def case_prod_beta setOrientationMatrix_def)

lemma simulate_torques_store:
  "po_torqueRefs (fst (foldl (simulate_torque L dt) s js)) = po_torqueRefs (fst s) \<and>
   heap_next (fst (foldl (simulate_torque L dt) s js)) = heap_next (fst s) \<and>
   dom (heap_torques (fst s)) \<subseteq> dom (heap_torques (fst (foldl (simulate_torque L dt) s js)))"
proof (induction js arbitrary: s)
  case Nil
  then show ?case by simp
next
  case (Cons j js)
  from Cons.IH [of "simulate_torque L dt s j"] simulate_torque_store [of L dt s j]
  show ?case by simp blast
qed

text \<open>
  A simulation step keeps the arrays of references and the next reference, and every
  allocated reference stays allocated.
\<close>

lemma simulate_store:
  "po_forceRefs (simulate L obj dt) = po_forceRefs obj \<and>
   po_torqueRefs (simulate L obj dt) = po_torqueRefs obj \<and>
   heap_next (simulate L obj dt) = heap_next obj \<and>
   dom (heap_forces obj) \<subseteq> dom (heap_forces (simulate L obj dt)) \<and>
   dom (heap_torques obj) \<subseteq> dom (heap_torques (simulate L obj dt))"
proof (cases "dt > 0")
  case False
  then show ?thesis by (simp add: simulate_def)
next
  case True
  define obj1 where "obj1 = setPositionMatrix obj
      (mul4 (po_positionMatrix obj)
         (translation4v (scaled3 (translationVector3 (po_velocityMatrix obj)) (dt / 1000))))"
  define s2 where
    "s2 = foldl (simulate_force dt) (obj1, identity4) [0..<length (po_forceRefs obj1)]"
  define obj4 where "obj4 = simulate_rotation 0 dt
      ((fst s2)\<lparr>po_velocityMatrix := mul4 (po_velocityMatrix (fst s2)) (snd s2)\<rparr>)"
  define s5 where
    "s5 = foldl (simulate_torque L dt) (obj4, identity4) [0..<length (po_torqueRefs obj4)]"
  have one: "po_forceRefs obj1 = po_forceRefs obj" "po_torqueRefs obj1 = po_torqueRefs obj"
      "heap_next obj1 = heap_next obj" "heap_forces obj1 = heap_forces obj"
      "heap_torques obj1 = heap_torques obj"
    by (simp_all add: obj1_def setPositionMatrix_def)
  from simulate_forces_store [of dt "(obj1, identity4)" "[0..<length (po_forceRefs obj1)]"]
  have two: "po_forceRefs (fst s2) = po_forceRefs obj" "po_torqueRefs (fst s2) = po_torqueRefs obj"
      "heap_next (fst s2) = heap_next obj" "heap_torques (fst s2) = heap_torques obj"
      "dom (heap_forces obj) \<subseteq> dom (heap_forces (fst s2))"
    by (simp_all add: s2_def one)
  have four: "po_forceRefs obj4 = po_forceRefs obj" "po_torqueRefs obj4 = po_torqueRefs obj"
      "heap_next obj4 = heap_next obj" "heap_torques obj4 = heap_torques obj"
      "heap_forces obj4 = heap_forces (fst s2)"
    by (simp_all add: obj4_def simulate_rotation_fields two)
  from simulate_torques_store [of L dt "(obj4, identity4)" "[0..<length (po_torqueRefs obj4)]"]
    simulate_torques_frame [of L dt "(obj4, identity4)" "[0..<length (po_torqueRefs obj4)]"]
  have five: "po_forceRefs (fst s5) = po_forceRefs obj" "po_torqueRefs (fst s5) = po_torqueRefs obj"
      "heap_next (fst s5) = heap_next obj" "heap_forces (fst s5) = heap_forces (fst s2)"
      "dom (heap_torques obj) \<subseteq> dom (heap_torques (fst s5))"
    by (simp_all add: s5_def four)
  have last: "po_forceRefs (simulate L obj dt) = po_forceRefs (fst s5)"
      "po_torqueRefs (simulate L obj dt) = po_torqueRefs (fst s5)"
      "heap_next (simulate L obj dt) = heap_next (fst s5)"
      "heap_forces (simulate L obj dt) = heap_forces (fst s5)"
      "heap_torques (simulate L obj dt) = heap_torques (fst s5)"
    using True
    by (simp_all add: simulate_def Let_def case_prod_beta correctMatrices_def
          setOrientationMatrix_def s5_def obj4_def s2_def obj1_def)
  show ?thesis
    unfolding last five using two(5) five(5) by simp
qed

lemma simulate_allocated:
  "heap_forces obj r \<noteq> None \<Longrightarrow> heap_forces (simulate L obj dt) r \<noteq> None"
  "heap_torques obj r \<noteq> None \<Longrightarrow> heap_torques (simulate L obj dt) r \<noteq> None"
proof -
  note store = simulate_store [of L obj dt]
  show "heap_forces (simulate L obj dt) r \<noteq> None" if "heap_forces obj r \<noteq> None"
  proof -
    from that have "r \<in> dom (heap_forces obj)" by (simp only: domIff not_False_eq_True)
    with store have "r \<in> dom (heap_forces (simulate L obj dt))" by blast
    then show ?thesis by (simp only: domIff not_False_eq_True)
  qed
  show "heap_torques (simulate L obj dt) r \<noteq> None" if "heap_torques obj r \<noteq> None"
  proof -
    from that have "r \<in> dom (heap_torques obj)" by (simp only: domIff not_False_eq_True)
    with store have "r \<in> dom (heap_torques (simulate L obj dt))" by blast
    then show ?thesis by (simp only: domIff not_False_eq_True)
  qed
qed

lemma heap_wf_simulate:
  assumes "heap_wf obj"
  shows "heap_wf (simulate L obj dt)"
proof -
  have same: "po_forceRefs (simulate L obj dt) = po_forceRefs obj"
      "po_torqueRefs (simulate L obj dt) = po_torqueRefs obj"
      "heap_next (simulate L obj dt) = heap_next obj"
    using simulate_store [of L obj dt] by blast+
  show ?thesis
    unfolding heap_wf_def same
  proof (intro conjI ballI)
    fix r
    assume "r \<in> set (po_forceRefs obj)"
    with assms have "r < heap_next obj" and "heap_forces obj r \<noteq> None"
      unfolding heap_wf_def by blast+
    then show "r < heap_next obj" and "heap_forces (simulate L obj dt) r \<noteq> None"
      by (simp_all only: simulate_allocated not_False_eq_True)
  next
    fix r
    assume "r \<in> set (po_torqueRefs obj)"
    with assms have "r < heap_next obj" and "heap_torques obj r \<noteq> None"
      unfolding heap_wf_def by blast+
    then show "r < heap_next obj" and "heap_torques (simulate L obj dt) r \<noteq> None"
      by (simp_all only: simulate_allocated not_False_eq_True)
  qed
qed

lemma addOrRenewForce_scan_dom:
  "dom h \<subseteq> dom (fst (addOrRenewForce_scan h rs i s d t))"
  by (induction rs) auto

lemma addOrRenewTorque_scan_dom:
  "dom h \<subseteq> dom (fst (addOrRenewTorque_scan h rs i s a t))"
  by (induction rs) auto

lemma addOrRenewForce_scan_allocated:
  "h r = Some y \<Longrightarrow> \<exists>z. fst (addOrRenewForce_scan h rs i s d t) r = Some z"
  using addOrRenewForce_scan_dom [of h rs i s d t] by (auto simp: dom_def)

lemma addOrRenewTorque_scan_allocated:
  "h r = Some y \<Longrightarrow> \<exists>z. fst (addOrRenewTorque_scan h rs i s a t) r = Some z"
  using addOrRenewTorque_scan_dom [of h rs i s a t] by (auto simp: dom_def)

lemma heap_wf_addOrRenewForce: "heap_wf obj \<Longrightarrow> heap_wf (addOrRenewForce obj i s d t)"
  by (auto simp: heap_wf_def addOrRenewForce_def new_Force_def addForce_def Let_def
        case_prod_beta less_Suc_eq intro: addOrRenewForce_scan_allocated)

lemma heap_wf_addOrRenewTorque: "heap_wf obj \<Longrightarrow> heap_wf (addOrRenewTorque obj i s a t)"
  by (auto simp: heap_wf_def addOrRenewTorque_def new_Torque_def addTorque_def Let_def
        case_prod_beta less_Suc_eq intro: addOrRenewTorque_scan_allocated)

lemma heap_wf_checkHit: "heap_wf obj \<Longrightarrow> heap_wf (hit_object (checkHit obj p))"
  by (simp add: heap_wf_def checkHit_def Let_def case_prod_beta getModelMatrixInverse_def
        getRotationMatrixInverse_def split: option.splits)

lemma heap_wf_perform:
  assumes "heap_wf obj"
  shows "heap_wf (perform L obj c)"
proof (cases c)
  case (SetPositionMatrix v)
  with assms show ?thesis by (simp add: heap_wf_def setPositionMatrix_def)
next
  case (SetOrientationMatrix v)
  with assms show ?thesis by (simp add: heap_wf_def setOrientationMatrix_def)
next
  case GetRotationMatrixInverse
  with assms show ?thesis by (simp add: heap_wf_def getRotationMatrixInverse_def Let_def)
next
  case GetModelMatrixInverse
  with assms show ?thesis
    by (simp add: heap_wf_def getModelMatrixInverse_def getRotationMatrixInverse_def Let_def
          split: option.splits)
next
  case (NewForce i s d t)
  with assms show ?thesis by (auto simp: heap_wf_def new_Force_def less_Suc_eq)
next
  case (NewTorque i s a t)
  with assms show ?thesis by (auto simp: heap_wf_def new_Torque_def less_Suc_eq)
next
  case (AddForce r)
  with assms show ?thesis by (auto simp: heap_wf_def addForce_def)
next
  case (AddTorque r)
  with assms show ?thesis by (auto simp: heap_wf_def addTorque_def)
next
  case (RenewForce r s d t)
  with assms show ?thesis by (auto simp: heap_wf_def split: option.splits)
next
  case (ExertForce r dt)
  with assms show ?thesis by (auto simp: heap_wf_def split: option.splits)
next
  case (AddOrRenewForce i s d t)
  with assms show ?thesis by (simp add: heap_wf_addOrRenewForce)
next
  case (AddOrRenewTorque i s a t)
  with assms show ?thesis by (simp add: heap_wf_addOrRenewTorque)
next
  case (CheckHit p)
  with assms show ?thesis by (simp add: heap_wf_checkHit)
next
  case (Simulate dt)
  with assms show ?thesis by (simp add: heap_wf_simulate)
qed

lemma heap_wf_performAll: "heap_wf (performAll L (PhysicalObject m p r s v bs) cs)"
proof -
  have "heap_wf obj \<Longrightarrow> heap_wf (foldl (perform L) obj cs)" for obj
    by (induction cs arbitrary: obj) (simp_all add: heap_wf_perform)
  from this [OF heap_wf_PhysicalObject] show ?thesis
    by (simp add: performAll_def)
qed

section \<open>The hit check\<close>

text \<open>
  The loop over the bodies finds a hit exactly when some body contains the point, and it
  calls \<^verbatim>\<open>Body.prototype.checkHit\<close> on the bodies up to and including the first that
  contains the point, on all bodies when there is none.
\<close>

lemma checkHit_bodies_outcome:
  "fst (checkHit_bodies bs q) = (\<exists>b \<in> set bs. fst (Body_checkHit b q)) \<and>
   snd (snd (checkHit_bodies bs q)) =
     (if \<exists>b \<in> set bs. fst (Body_checkHit b q)
      then Suc (length (takeWhile (\<lambda>b. \<not> fst (Body_checkHit b q)) bs))
      else length bs)"
  by (induction bs) (auto split: prod.splits bool.splits)

lemma getModelMatrixInverse_frame:
  "po_bodySize (snd (getModelMatrixInverse obj)) = po_bodySize obj \<and>
   po_bodies (snd (getModelMatrixInverse obj)) = po_bodies obj"
  by (simp add: getModelMatrixInverse_def getRotationMatrixInverse_def Let_def
        split: option.splits)

text \<open>
  The hit check returns false without a call on any body as soon as one coordinate of
  the transformed point is, in absolute value, not below the cached size.
\<close>

lemma checkHit_rejects:
  assumes "\<not> (\<bar>mulVec4Mat4 (p @ [1]) (fst (getModelMatrixInverse obj)) ! 0\<bar> < po_bodySize obj \<and>
              \<bar>mulVec4Mat4 (p @ [1]) (fst (getModelMatrixInverse obj)) ! 1\<bar> < po_bodySize obj \<and>
              \<bar>mulVec4Mat4 (p @ [1]) (fst (getModelMatrixInverse obj)) ! 2\<bar> < po_bodySize obj)"
  shows "hit_result (checkHit obj p) = False \<and> hit_bodyChecks (checkHit obj p) = 0"
  using assms
  by (auto simp: checkHit_def Let_def case_prod_beta getModelMatrixInverse_frame)

text \<open>
  C3 (as amended). \<^verbatim>\<open>checkHit(point)\<close> transforms the point, extended by 1, by the
  inverse of the model matrix. When all three coordinates of the transformed point are
  below the cached size in absolute value, it tests the bodies in order, returns true at
  the first body that contains the transformed point and false if none does; the number
  of calls of \<^verbatim>\<open>Body.prototype.checkHit\<close> is the index of that first body plus one, or the
  number of bodies. Otherwise, that is as soon as one coordinate is at least the cached
  size in absolute value, it returns false without a call on any body.
\<close>

theorem checkHit_fast_rejection:
  "(if \<bar>mulVec4Mat4 (p @ [1]) (fst (getModelMatrixInverse obj)) ! 0\<bar> < po_bodySize obj \<and>
       \<bar>mulVec4Mat4 (p @ [1]) (fst (getModelMatrixInverse obj)) ! 1\<bar> < po_bodySize obj \<and>
       \<bar>mulVec4Mat4 (p @ [1]) (fst (getModelMatrixInverse obj)) ! 2\<bar> < po_bodySize obj
    then hit_result (checkHit obj p) =
           (\<exists>b \<in> set (po_bodies obj).
              fst (Body_checkHit b (mulVec4Mat4 (p @ [1]) (fst (getModelMatrixInverse obj))))) \<and>
         hit_bodyChecks (checkHit obj p) =
           (if \<exists>b \<in> set (po_bodies obj).
                 fst (Body_checkHit b (mulVec4Mat4 (p @ [1]) (fst (getModelMatrixInverse obj))))
            then Suc (length (takeWhile
                   (\<lambda>b. \<not> fst (Body_checkHit b
                                 (mulVec4Mat4 (p @ [1]) (fst (getModelMatrixInverse obj)))))
                   (po_bodies obj)))
            else length (po_bodies obj))
    else hit_result (checkHit obj p) = False \<and> hit_bodyChecks (checkHit obj p) = 0)"
  using checkHit_bodies_outcome
          [of "po_bodies obj" "mulVec4Mat4 (p @ [1]) (fst (getModelMatrixInverse obj))"]
  by (simp add: checkHit_def Let_def case_prod_beta getModelMatrixInverse_frame)

subsection \<open>The box object\<close>

lemma sqrt_49: "sqrt 49 = 7"
  by (rule real_sqrt_unique) simp_all

text \<open>One round of the loop of \<^verbatim>\<open>_calculateBodySize\<close>, with the local variables named.\<close>

lemma calculateBodySize_step_eval:
  assumes "translationVector3 (Body_getPositionMatrix b) = p"
    and "mulVec3Mat3 (Body_getHalfDimensions b)
           (matrix3from4 (mul4 R (Body_getOrientationMatrix b))) = [hx, hy, hz]"
  shows "calculateBodySize_step R s b =
     max (max (max (max (max (max (max (max s
       (length3 (add3 p [hx, hy, hz])))
       (length3 (add3 p [hx, hy, - hz])))
       (length3 (add3 p [hx, - hy, hz])))
       (length3 (add3 p [hx, - hy, - hz])))
       (length3 (add3 p [- hx, hy, hz])))
       (length3 (add3 p [- hx, hy, - hz])))
       (length3 (add3 p [- hx, - hy, hz])))
       (length3 (add3 p [- hx, - hy, - hz]))"
  by (simp only: calculateBodySize_step_def assms Let_def nth_Cons_0 nth_Cons_Suc
        One_nat_def numeral_2_eq_2)

lemma boxObject_bodySize: "po_bodySize boxObject = 7"
proof -
  have p: "translationVector3 (Body_getPositionMatrix (Body identity4 identity4 [6, 4, 12])) =
             [0, 0, 0]"
    by (simp add: Body_def Body_getPositionMatrix_def matrix_defs)
  have h: "mulVec3Mat3 (Body_getHalfDimensions (Body identity4 identity4 [6, 4, 12]))
             (matrix3from4 (mul4 identity4
                (Body_getOrientationMatrix (Body identity4 identity4 [6, 4, 12])))) = [3, 2, 6]"
    by (simp add: Body_def Body_getOrientationMatrix_def Body_getHalfDimensions_def matrix_defs)
  have "calculateBodySize_step identity4 0 (Body identity4 identity4 [6, 4, 12]) = 7"
    unfolding calculateBodySize_step_eval [OF p h]
    by (simp add: length3_def add3_def sqrt_49)
  then show ?thesis
    by (simp add: PhysicalObject_def calculateBodySize_def)
qed

lemma boxObject_inverse: "fst (getModelMatrixInverse boxObject) = identity4"
  by (simp add: PhysicalObject_def calculateBodySize_def getModelMatrixInverse_def
       getRotationMatrixInverse_def Let_def matrix_defs)

lemma boxObject_bodies: "po_bodies boxObject = [Body identity4 identity4 [6, 4, 12]]"
  by (simp add: PhysicalObject_def calculateBodySize_def)

lemma identity4_points:
  "mulVec4Mat4 ([x, y, z] @ [1]) identity4 = [x, y, z, 1]"
  "mulVec4Mat4 [x, y, z, 1] identity4 = [x, y, z, 1]"
  by (simp_all add: mulVec4Mat4_def identity4_def)

text \<open>
  On the box object, whose cached size is 7, the point (1, 1, 1) is found in the body
  with one call, and the point (10, 0, 0) is rejected without a call.
\<close>

theorem checkHit_fast_rejection_witness:
  "hit_result (checkHit boxObject [1, 1, 1]) = True \<and>
   hit_bodyChecks (checkHit boxObject [1, 1, 1]) = 1 \<and>
   hit_result (checkHit boxObject [10, 0, 0]) = False \<and>
   hit_bodyChecks (checkHit boxObject [10, 0, 0]) = 0"
proof -
  have i: "fst (Body_checkHit (Body identity4 identity4 [6, 4, 12]) [1, 1, 1, 1])"
    by (simp add: Body_checkHit_def Body_getModelMatrixInverse_def Body_def Let_def matrix_defs)
  show ?thesis
    using checkHit_fast_rejection [of "[1, 1, 1]" boxObject]
      checkHit_fast_rejection [of "[10, 0, 0]" boxObject]
    unfolding boxObject_bodySize boxObject_inverse boxObject_bodies identity4_points
    by (simp add: i)
qed

text \<open>
  C3 as stated fails. For the point (10, 0, 0) and the box object, it is not the case
  that all three coordinates of the transformed point exceed the cached size (two of
  them are 0), the object has a body, and yet the check returns without a call on it.
\<close>

theorem checkHit_all_three_counterexample:
  "\<not> (\<bar>mulVec4Mat4 ([10, 0, 0] @ [1]) (fst (getModelMatrixInverse boxObject)) ! 0\<bar> >
        po_bodySize boxObject \<and>
      \<bar>mulVec4Mat4 ([10, 0, 0] @ [1]) (fst (getModelMatrixInverse boxObject)) ! 1\<bar> >
        po_bodySize boxObject \<and>
      \<bar>mulVec4Mat4 ([10, 0, 0] @ [1]) (fst (getModelMatrixInverse boxObject)) ! 2\<bar> >
        po_bodySize boxObject) \<and>
   po_bodies boxObject \<noteq> [] \<and>
   hit_result (checkHit boxObject [10, 0, 0]) = False \<and>
   hit_bodyChecks (checkHit boxObject [10, 0, 0]) = 0"
proof -
  have "\<not> (\<bar>mulVec4Mat4 ([10, 0, 0] @ [1]) (fst (getModelMatrixInverse boxObject)) ! 0\<bar> <
             po_bodySize boxObject \<and>
           \<bar>mulVec4Mat4 ([10, 0, 0] @ [1]) (fst (getModelMatrixInverse boxObject)) ! 1\<bar> <
             po_bodySize boxObject \<and>
           \<bar>mulVec4Mat4 ([10, 0, 0] @ [1]) (fst (getModelMatrixInverse boxObject)) ! 2\<bar> <
             po_bodySize boxObject)"
    unfolding boxObject_bodySize boxObject_inverse identity4_points by simp
  from checkHit_rejects [OF this] show ?thesis
    unfolding boxObject_bodySize boxObject_inverse boxObject_bodies identity4_points by simp
qed

section \<open>The cached size of the structure\<close>

lemma tiltedObject_bodySize: "po_bodySize tiltedObject = sqrt 171"
proof -
  have p: "translationVector3 (Body_getPositionMatrix tiltedBody) = [10, 0, 0]"
    by (simp add: Body_def Body_getPositionMatrix_def matrix_defs)
  have h: "mulVec3Mat3 (Body_getHalfDimensions tiltedBody)
             (matrix3from4 (mul4 identity4 (Body_getOrientationMatrix tiltedBody))) =
           [- 1, 7, 1]"
    by (simp add: Body_def Body_getOrientationMatrix_def Body_getHalfDimensions_def matrix_defs)
  have "calculateBodySize_step identity4 0 tiltedBody = sqrt 171"
    unfolding calculateBodySize_step_eval [OF p h]
    by (simp add: length3_def add3_def max_def)
  then show ?thesis
    by (simp add: PhysicalObject_def calculateBodySize_def)
qed

lemma tiltedObject_inverse: "fst (getModelMatrixInverse tiltedObject) = identity4"
  by (simp add: PhysicalObject_def calculateBodySize_def getModelMatrixInverse_def
       getRotationMatrixInverse_def Let_def matrix_defs)

text \<open>
  C4. The cached size under-estimates the farthest corner of a tilted body. The tilted
  object has the single tilted body; the point (17, 1, 1), a corner of that body, lies in
  the body by \<^verbatim>\<open>Body.prototype.checkHit\<close>; the cached size is the square root of 171,
  which is less than the distance of the point from the origin of the object, the
  square root of 291; and the hit check of the object rejects the point by its size.
\<close>

theorem bodySize_underestimates:
  "po_bodies tiltedObject = [tiltedBody] \<and>
   fst (Body_checkHit tiltedBody [17, 1, 1, 1]) \<and>
   po_bodySize tiltedObject = sqrt 171 \<and>
   length3 [17, 1, 1] = sqrt 291 \<and>
   po_bodySize tiltedObject < length3 [17, 1, 1] \<and>
   hit_result (checkHit tiltedObject [17, 1, 1]) = False"
proof (intro conjI)
  show "po_bodies tiltedObject = [tiltedBody]"
    by (simp add: PhysicalObject_def calculateBodySize_def)
  show "fst (Body_checkHit tiltedBody [17, 1, 1, 1])"
    by (simp add: Body_checkHit_def Body_getModelMatrixInverse_def Body_def Let_def matrix_defs)
  show "po_bodySize tiltedObject = sqrt 171"
    by (rule tiltedObject_bodySize)
  show "length3 [17, 1, 1] = sqrt 291"
    by (simp add: length3_def)
  show "po_bodySize tiltedObject < length3 [17, 1, 1]"
    unfolding tiltedObject_bodySize by (simp add: length3_def)
  have "sqrt 171 < 17" by (rule real_less_lsqrt) simp_all
  then have "\<not> (\<bar>mulVec4Mat4 ([17, 1, 1] @ [1]) (fst (getModelMatrixInverse tiltedObject)) ! 0\<bar> <
             po_bodySize tiltedObject \<and>
           \<bar>mulVec4Mat4 ([17, 1, 1] @ [1]) (fst (getModelMatrixInverse tiltedObject)) ! 1\<bar> <
             po_bodySize tiltedObject \<and>
           \<bar>mulVec4Mat4 ([17, 1, 1] @ [1]) (fst (getModelMatrixInverse tiltedObject)) ! 2\<bar> <
             po_bodySize tiltedObject)"
    unfolding tiltedObject_bodySize tiltedObject_inverse identity4_points by simp
  from checkHit_rejects [OF this] show "hit_result (checkHit tiltedObject [17, 1, 1]) = False"
    by simp
qed

end
